theory Spec2Isabelle
  imports Complex_Main
begin

section \<open>The Arrow Game: rules engine of \<open>src/main.js\<close>\<close>

subsection \<open>JavaScript values\<close>

text \<open>
  Arrow contents reach the rules as results of \<open>parseInt\<close> on a cell's
  \<open>dataset.status\<close>: an integer, or \<open>NaN\<close> when the status is the marker
  \<open>"animatingto"\<close>. A status string is the decimal rendering of a number or that marker.
\<close>

datatype number = Num int | NaN

datatype status = Str number | Animatingto

fun parseInt :: "status \<Rightarrow> number" where
  "parseInt (Str n) = n"
| "parseInt Animatingto = NaN"

text \<open>\<open>===\<close> on numbers: \<open>NaN\<close> equals nothing, not even itself.\<close>

fun strict_eq :: "number \<Rightarrow> number \<Rightarrow> bool" where
  "strict_eq (Num a) (Num b) = (a = b)"
| "strict_eq _ _ = False"

text \<open>\<open>Array.prototype.includes\<close> on an array of integers.\<close>

fun array_includes :: "int list \<Rightarrow> number \<Rightarrow> bool" where
  "array_includes xs (Num a) = (a \<in> set xs)"
| "array_includes xs NaN = False"

fun js_add :: "number \<Rightarrow> number \<Rightarrow> number" where
  "js_add (Num a) (Num b) = Num (a + b)"
| "js_add _ _ = NaN"

text \<open>The remainder \<open>%\<close> takes the sign of the dividend.\<close>

definition js_rem_int :: "int \<Rightarrow> int \<Rightarrow> int" where
  "js_rem_int a b = sgn a * (\<bar>a\<bar> mod \<bar>b\<bar>)"

fun js_rem :: "number \<Rightarrow> int \<Rightarrow> number" where
  "js_rem (Num a) b = (if b = 0 then NaN else Num (js_rem_int a b))"
| "js_rem NaN b = NaN"

subsection \<open>Grid coordinates\<close>

definition grid_id :: "int \<Rightarrow> int \<Rightarrow> int" where
  "grid_id i j = i * 5 + j"

definition grid_indices :: "int \<Rightarrow> int \<times> int" where
  "grid_indices n = ((n - js_rem_int n 5) div 5, js_rem_int n 5)"

subsection \<open>Action classifier\<close>

text \<open>
  The three symbols, and \<open>-1\<close> for an invalid action. The source's parameter \<open>dist\<close> and
  local \<open>inv\<close> are written \<open>distance\<close> and \<open>inv'\<close> here.
\<close>

datatype action = Merge | Combine | Cancel | Invalid

definition basic_arr :: "int list" where
  "basic_arr = [1, 5, 8, 3, 10, 4, 2, 7]"

definition mid_arr :: "int list" where
  "mid_arr = [14, 9, 6, 11]"

definition max_arr :: "int list" where
  "max_arr = [17, 23, 40]"

definition arrows :: "int list" where
  "arrows = [1, 5, 8, 3, 10, 4, 2, 7, 14, 9, 6, 11, 17, 23, 40]"

text \<open>
  The entries of \<open>action_triples\<close> have two shapes: \<open>[valid_dist, inv]\<close> for a
  one-directional arrow and \<open>[[combine_dists, cancel_dist], inv]\<close> for a two-directional one.
\<close>

datatype triple = Basic int int | Mid "int list" int int

definition action_triples :: "(int \<times> triple) list" where
  "action_triples =
     [ (1, Basic 5 5), (5, Basic (-5) 1), (8, Basic 1 3), (3, Basic (-1) 8),
       (2, Basic 4 7), (7, Basic (-4) 2), (10, Basic 6 4), (4, Basic (-6) 10),
       (11, Mid [1, 5] 1 6), (6, Mid [1, 5] 5 11), (9, Mid [4, 6] 4 14), (14, Mid [4, 6] 6 9) ]"

text \<open>
  \<open>action_triples[arrow1]\<close>. The lookup is made only after \<open>includes\<close> has found the
  key in \<open>basic_arr\<close> or \<open>mid_arr\<close>, where the table has an entry of the matching shape
  (lemmas \<open>basic_arr_triples\<close> and \<open>mid_arr_triples\<close>), so the remaining cases of the two
  \<open>case\<close> expressions below are never taken.
\<close>

fun lookup_triple :: "number \<Rightarrow> triple option" where
  "lookup_triple (Num a) = map_of action_triples a"
| "lookup_triple NaN = None"

definition classifyAction :: "number \<Rightarrow> number \<Rightarrow> int \<Rightarrow> action" where
  "classifyAction arrow1 arrow2 distance =
     (if array_includes basic_arr arrow1 then
        (case lookup_triple arrow1 of
           Some (Basic valid_dist inv') \<Rightarrow>
             if strict_eq arrow1 arrow2 \<and> \<bar>distance\<bar> = \<bar>valid_dist\<bar> then Merge
             else if strict_eq arrow2 (Num inv') \<and> distance = valid_dist then Combine
             else if strict_eq arrow2 (Num inv') \<and> distance = - valid_dist then Cancel
             else Invalid
         | _ \<Rightarrow> Invalid)
      else if array_includes mid_arr arrow1 then
        (case lookup_triple arrow1 of
           Some (Mid combine_dists cancel_dist inv') \<Rightarrow>
             if strict_eq arrow1 arrow2 \<and> \<bar>distance\<bar> = cancel_dist then Cancel
             else if strict_eq arrow2 (Num inv') \<and> \<bar>distance\<bar> \<in> set combine_dists then Combine
             else Invalid
         | _ \<Rightarrow> Invalid)
      else if \<bar>distance\<bar> \<in> set [1, 4, 5, 6] then
        (if strict_eq arrow1 arrow2 \<and> strict_eq arrow1 (Num 40) then Cancel
         else if (strict_eq arrow1 (Num 17) \<and> strict_eq arrow2 (Num 23))
               \<or> (strict_eq arrow1 (Num 23) \<and> strict_eq arrow2 (Num 17)) then Combine
         else Invalid)
      else Invalid)"

subsection \<open>Edge resolver\<close>

definition resolveEdgeError :: "int \<times> int \<Rightarrow> int \<times> int \<Rightarrow> int \<Rightarrow> bool" where
  "resolveEdgeError src dest distance =
     (let adist = \<bar>distance\<bar>;
          src_r = fst src;
          dest_r = fst dest;
          grid_size = 5
      in if adist = grid_size then True
         else if adist = 1 then src_r = dest_r
         else if adist = grid_size - 1 \<or> adist = grid_size + 1 then \<bar>src_r - dest_r\<bar> = 1
         else True)"

subsection \<open>The score and the swap counter\<close>

text \<open>
  \<open>score\<close> and \<open>spins_remaining\<close> are JavaScript values. \<open>loadNewGame\<close> assigns them
  numbers; \<open>initializeGame\<close> assigns the result of \<open>parseInt\<close> on the saved item, or the
  string \<open>"0"\<close>, \<open>"3"\<close> when that result is \<open>NaN\<close>. A number that these fields hold is
  an integer-valued double (\<open>JNumber n\<close>, with \<open>n\<close> representable), an infinity, or
  \<open>NaN\<close>.
\<close>

datatype jsvalue = JNumber int | JInfinity | JMinus_Infinity | JNaN | JString string

text \<open>
  The double nearest to an integer, ties to even: integers below \<open>2^53\<close> in magnitude are
  doubles; a larger one keeps its 53 leading bits, and becomes an infinity from \<open>2^1024\<close> on.
\<close>

fun bit_length :: "nat \<Rightarrow> nat" where
  "bit_length n = (if n = 0 then 0 else Suc (bit_length (n div 2)))"

declare bit_length.simps [simp del]

definition to_double :: "int \<Rightarrow> jsvalue" where
  "to_double n =
     (if \<bar>n\<bar> < 2 ^ 53 then JNumber n
      else
        let k = bit_length (nat \<bar>n\<bar>) - 53;
            q = \<bar>n\<bar> div 2 ^ k;
            r = \<bar>n\<bar> mod 2 ^ k;
            q1 = (if 2 * r > 2 ^ k \<or> (2 * r = 2 ^ k \<and> odd q) then q + 1 else q);
            m = q1 * 2 ^ k
        in if m \<ge> 2 ^ 1024 then (if n < 0 then JMinus_Infinity else JInfinity)
           else JNumber (sgn n * m))"

text \<open>
  \<open>Number.prototype.toString\<close> of a non-negative integer below \<open>10^21\<close>: its decimal
  digits.
\<close>

fun decimal :: "nat \<Rightarrow> string" where
  "decimal n =
     (if n < 10 then [''0123456789'' ! n]
      else decimal (n div 10) @ [''0123456789'' ! (n mod 10)])"

declare decimal.simps [simp del]

text \<open>
  \<open>x += k\<close> for a non-negative integer \<open>k\<close> below \<open>10^21\<close>, as every amount that
  \<open>handleAction\<close> adds is: the rounded sum on a number, concatenation on a string.
\<close>

fun js_add_to :: "jsvalue \<Rightarrow> nat \<Rightarrow> jsvalue" where
  "js_add_to (JNumber a) k = to_double (a + int k)"
| "js_add_to JInfinity k = JInfinity"
| "js_add_to JMinus_Infinity k = JMinus_Infinity"
| "js_add_to JNaN k = JNaN"
| "js_add_to (JString s) k = JString (s @ decimal k)"

subsection \<open>Game fields and the grid\<close>

text \<open>
  The global fields of the game, and the grid: \<open>cells g n\<close> is the \<open>dataset.status\<close>
  of the element \<open>"cell" + n\<close>. The page has the 25 elements \<open>cell0\<close> .. \<open>cell24\<close>
  (\<open>storeCellIds\<close>); for any other id \<open>document.getElementById\<close> returns \<open>null\<close>, and
  reading \<open>.dataset\<close> of \<open>null\<close> throws a \<open>TypeError\<close>. A thrown error carries the
  fields as they were when it was thrown. \<open>arrows_placed\<close> is only ever assigned 0 and
  counted up and down by one or two.
\<close>

record game =
  cells :: "int \<Rightarrow> status"
  score :: jsvalue
  spins_remaining :: jsvalue
  arrows_placed :: int
  animating_columns :: "int list"

datatype error = TypeError

definition getElementById :: "game \<Rightarrow> int \<Rightarrow> status option" where
  "getElementById g n = (if 0 \<le> n \<and> n \<le> 24 then Some (cells g n) else None)"

definition updateGridCell :: "int \<Rightarrow> int \<Rightarrow> status \<Rightarrow> game \<Rightarrow> (error \<times> game) + (bool \<times> game)" where
  "updateGridCell i j content g =
     (if j \<in> set (animating_columns g) then Inr (False, g)
      else (case getElementById g (grid_id i j) of
              None \<Rightarrow> Inl (TypeError, g)
            | Some _ \<Rightarrow> Inr (True, g\<lparr>cells := (cells g)(grid_id i j := content)\<rparr>)))"

subsection \<open>Move resolver\<close>

text \<open>
  \<open>handleAction(cell, cell_clone, x, y)\<close>. Of the dragged clone the function reads
  \<open>dataset.status\<close> and \<open>dataset.origin\<close>; \<open>x\<close> and \<open>y\<close> are the pointer's
  coordinates inside the grid. The result holds the returned value (\<open>-1\<close>, or nothing),
  the fields after the two \<open>updateGridCell\<close> calls, and the calls
  \<open>applyActionGravity(i, j)\<close> that follow them, in order. Opacity, the clone's removal,
  landing animations and the score label are presentation and are left out.
\<close>

record outcome =
  returned :: "int option"
  game_after :: game
  gravity_calls :: "(int \<times> int) list"

text \<open>The value bound to \<open>u\<close> in \<open>handleAction\<close>, which relates the arrow type to the score.\<close>

definition tier_score :: "number \<Rightarrow> nat" where
  "tier_score src_content =
     (if array_includes basic_arr src_content then 2
      else if array_includes mid_arr src_content then 4
      else if strict_eq src_content (Num 40) then 9 else 6)"

definition handleAction :: "status \<Rightarrow> int \<Rightarrow> real \<Rightarrow> real \<Rightarrow> game \<Rightarrow> (error \<times> game) + outcome" where
  "handleAction clone_status clone_origin x y g =
     (if 1 \<le> x \<and> x \<le> 299 \<and> 1 \<le> y \<and> y \<le> 299 then
        let cell_i = \<lfloor>y / 60\<rfloor>; cell_j = \<lfloor>x / 60\<rfloor> in
        if cell_j \<in> set (animating_columns g) \<or> js_rem_int clone_origin 5 \<in> set (animating_columns g)
        then Inr \<lparr>returned = Some (- 1), game_after = g, gravity_calls = []\<rparr>
        else
          (case getElementById g (grid_id cell_i cell_j) of
             None \<Rightarrow> Inl (TypeError, g)
           | Some dest_status \<Rightarrow>
               let src_content = parseInt clone_status;
                   dest_content = parseInt dest_status;
                   origin = grid_indices clone_origin;
                   action_dist = grid_id cell_i cell_j - clone_origin
               in if \<not> resolveEdgeError origin (cell_i, cell_j) action_dist
                  then Inr \<lparr>returned = Some (- 1), game_after = g, gravity_calls = []\<rparr>
                  else
                    let action = classifyAction src_content dest_content action_dist;
                        u = tier_score src_content;
                        switch =
                          (case action of
                             Merge \<Rightarrow>
                               Some (g\<lparr>score := js_add_to (score g) 2, arrows_placed := arrows_placed g - 1\<rparr>,
                                     Num 0, src_content)
                           | Combine \<Rightarrow>
                               Some (g\<lparr>score := js_add_to (score g) (2 ^ (u + 1)),
                                       arrows_placed := arrows_placed g - 1\<rparr>,
                                     Num 0, js_rem (js_add src_content dest_content) 80)
                           | Cancel \<Rightarrow>
                               Some (g\<lparr>spins_remaining :=
                                         (if strict_eq (js_add src_content dest_content) (Num 80)
                                          then js_add_to (spins_remaining g) 1
                                          else spins_remaining g),
                                       score := js_add_to (score g) (2 ^ u + 2),
                                       arrows_placed := arrows_placed g - 2\<rparr>,
                                     Num 0, Num 0)
                           | Invalid \<Rightarrow> None)
                    in (case switch of
                          None \<Rightarrow> Inr \<lparr>returned = Some (- 1), game_after = g, gravity_calls = []\<rparr>
                        | Some (g1, new_src_content, new_dest_content) \<Rightarrow>
                            (case updateGridCell (fst origin) (snd origin) (Str new_src_content) g1 of
                               Inl e \<Rightarrow> Inl e
                             | Inr (_, g2) \<Rightarrow>
                                 (case updateGridCell cell_i cell_j (Str new_dest_content) g2 of
                                    Inl e \<Rightarrow> Inl e
                                  | Inr (_, g3) \<Rightarrow>
                                      Inr \<lparr>returned = None, game_after = g3,
                                           gravity_calls =
                                             (if strict_eq src_content (Num 1) \<and> strict_eq dest_content (Num 5)
                                                 \<and> action_dist = - 5
                                              then [(cell_i - 1, cell_j)]
                                              else if strict_eq src_content (Num 5) \<and> strict_eq dest_content (Num 1)
                                                      \<and> action_dist = 5
                                              then [(fst origin - 1, snd origin)]
                                              else (if strict_eq new_src_content (Num 0)
                                                    then [(fst origin - 1, snd origin)] else [])
                                                 @ (if strict_eq new_dest_content (Num 0)
                                                    then [(cell_i - 1, cell_j)] else []))\<rparr>))))
      else Inr \<lparr>returned = None, game_after = g, gravity_calls = []\<rparr>)"

text \<open>
  \<open>loadNewGame\<close> and \<open>clearGrid\<close>: the fields of a fresh game, every cell \<open>"0"\<close>
  (no column is animating when the page has just loaded). The next arrows are drawn at
  random and are not part of these fields.
\<close>

definition loadNewGame :: game where
  "loadNewGame = \<lparr>cells = (\<lambda>n. Str (Num 0)), score = JNumber 0, spins_remaining = JNumber 3,
                  arrows_placed = 0,
                  animating_columns = []\<rparr>"

text \<open>
  The two counters as \<open>initializeGame\<close> restores them from a saved game: \<open>saved_spins\<close>
  and \<open>saved_score\<close> are the results of \<open>parseInt\<close> on the stored items, \<open>NaN\<close> for an
  item that is missing or does not parse.
\<close>

definition initializeGame_counters :: "jsvalue \<Rightarrow> jsvalue \<Rightarrow> game \<Rightarrow> game" where
  "initializeGame_counters saved_spins saved_score g =
     g\<lparr>spins_remaining := (if saved_spins = JNaN then JString ''3'' else saved_spins),
       score := (if saved_score = JNaN then JString ''0'' else saved_score)\<rparr>"

subsection \<open>Pairs of arrows that admit an action\<close>

text \<open>
  An auxiliary list, not part of the source: the pairs (source value, destination value)
  for which \<open>classifyAction\<close> returns an action at some distance (lemma
  \<open>classify_pairs\<close>).
\<close>

definition action_pairs :: "(int \<times> int) list" where
  "action_pairs =
     [(1, 1), (5, 5), (8, 8), (3, 3), (10, 10), (4, 4), (2, 2), (7, 7),
      (1, 5), (5, 1), (8, 3), (3, 8), (10, 4), (4, 10), (2, 7), (7, 2),
      (14, 14), (9, 9), (6, 6), (11, 11), (14, 9), (9, 14), (6, 11), (11, 6),
      (40, 40), (17, 23), (23, 17)]"


subsection \<open>End-game check\<close>

definition action_dists :: "int list" where
  "action_dists = [- 6, - 5, - 4, - 1, 1, 4, 5, 6]"

definition getNeighbors :: "int \<Rightarrow> int list" where
  "getNeighbors cell_id = map (\<lambda>n. cell_id + n) action_dists"

definition canCombine :: "int \<Rightarrow> number \<Rightarrow> int \<Rightarrow> number \<Rightarrow> int \<Rightarrow> bool" where
  "canCombine src src_content dest dest_content distance =
     (src \<ge> 0 \<and> dest \<ge> 0 \<and> src \<le> 24 \<and> dest \<le> 24
      \<and> resolveEdgeError (grid_indices src) (grid_indices dest) distance
      \<and> classifyAction src_content dest_content distance \<noteq> Invalid)"

text \<open>
  The two loops of \<open>endGameCheck\<close>. Each returns \<open>True\<close> when it reaches the statement
  \<open>return false\<close>, at the first pair that \<open>canCombine\<close> accepts, and looks no further. The
  inner loop runs over the eight entries of \<open>neighbors\<close>; the distance it passes is
  \<open>i - n\<close>. The cells read are \<open>cell0\<close> .. \<open>cell24\<close>, which exist.
\<close>

fun endGameCheck_inner :: "game \<Rightarrow> int \<Rightarrow> number \<Rightarrow> int list \<Rightarrow> bool" where
  "endGameCheck_inner g i content_i [] = False"
| "endGameCheck_inner g i content_i (n # neighbors) =
     (if 0 \<le> n \<and> n < 25 \<and> canCombine i content_i n (parseInt (cells g n)) (i - n) then True
      else endGameCheck_inner g i content_i neighbors)"

function endGameCheck_outer :: "game \<Rightarrow> int \<Rightarrow> bool" where
  "endGameCheck_outer g i =
     (if i < 25 then
        (if endGameCheck_inner g i (parseInt (cells g i)) (getNeighbors i) then True
         else endGameCheck_outer g (i + 1))
      else False)"
  by pat_completeness auto
termination
  by (relation "measure (\<lambda>(g, i). nat (25 - i))") auto

declare endGameCheck_outer.simps [simp del]

text \<open>
  \<open>endGameCheck\<close>: the returned value, and whether \<open>endGameMenu()\<close> was called (it opens
  the game-over screen).
\<close>

record endgame =
  returned_value :: bool
  endGameMenu_called :: bool

definition endGameCheck :: "game \<Rightarrow> endgame" where
  "endGameCheck g =
     (if endGameCheck_outer g 0 then \<lparr>returned_value = False, endGameMenu_called = False\<rparr>
      else \<lparr>returned_value = True, endGameMenu_called = True\<rparr>)"

subsection \<open>Gravity\<close>














subsection \<open>Running gravity to completion\<close>











section \<open>Properties\<close>


lemma basic_arr_cases:
  "v \<in> set basic_arr \<Longrightarrow> v = 1 \<or> v = 5 \<or> v = 8 \<or> v = 3 \<or> v = 10 \<or> v = 4 \<or> v = 2 \<or> v = 7"
  by (simp add: basic_arr_def)

lemma mid_arr_cases:
  "v \<in> set mid_arr \<Longrightarrow> v = 14 \<or> v = 9 \<or> v = 6 \<or> v = 11"
  by (simp add: mid_arr_def)

lemma basic_arr_triples:
  "v \<in> set basic_arr \<Longrightarrow> \<exists>d i. map_of action_triples v = Some (Basic d i)"
  by (drule basic_arr_cases) (elim disjE; simp add: action_triples_def)

lemma mid_arr_triples:
  "c \<in> set mid_arr \<Longrightarrow> \<exists>D k i. map_of action_triples c = Some (Mid D k i)"
  by (drule mid_arr_cases) (elim disjE; simp add: action_triples_def)

lemma classify_basic_pairs:
  assumes "v \<in> set basic_arr" "classifyAction (Num v) b d \<noteq> Invalid"
  shows "\<exists>w. b = Num w \<and> (v, w) \<in> set action_pairs"
  using basic_arr_cases[OF assms(1)] assms(2)
  apply (cases b)
  apply (elim disjE)
  apply (simp_all add: classifyAction_def basic_arr_def action_triples_def action_pairs_def split: if_splits)
  done

lemma classify_mid_pairs:
  assumes "v \<in> set mid_arr" "classifyAction (Num v) b d \<noteq> Invalid"
  shows "\<exists>w. b = Num w \<and> (v, w) \<in> set action_pairs"
  using mid_arr_cases[OF assms(1)] assms(2)
  apply (cases b)
  apply (elim disjE)
  apply (simp_all add: classifyAction_def basic_arr_def mid_arr_def action_triples_def action_pairs_def split: if_splits)
  done

lemma classify_max_pairs:
  assumes "v \<notin> set basic_arr" "v \<notin> set mid_arr" "classifyAction (Num v) b d \<noteq> Invalid"
  shows "\<exists>w. b = Num w \<and> (v, w) \<in> set action_pairs"
  using assms
  apply (cases b)
  apply (simp_all add: classifyAction_def action_pairs_def split: if_splits)
  done

lemma classify_NaN: "classifyAction NaN b d = Invalid"
  by (simp add: classifyAction_def)

lemma classify_pairs:
  assumes "classifyAction a b d \<noteq> Invalid"
  shows "\<exists>v w. a = Num v \<and> b = Num w \<and> (v, w) \<in> set action_pairs"
proof (cases a)
  case NaN
  with assms show ?thesis by (simp add: classify_NaN)
next
  case (Num v)
  with assms have *: "classifyAction (Num v) b d \<noteq> Invalid" by simp
  show ?thesis
  proof (cases "v \<in> set basic_arr")
    case True
    from classify_basic_pairs[OF True *] Num show ?thesis by blast
  next
    case False
    show ?thesis
    proof (cases "v \<in> set mid_arr")
      case True
      from classify_mid_pairs[OF True *] Num show ?thesis by blast
    next
      case F2: False
      from classify_max_pairs[OF False F2 *] Num show ?thesis by blast
    qed
  qed
qed


lemma action_pairs_sym: "(v, w) \<in> set action_pairs \<Longrightarrow> (w, v) \<in> set action_pairs"
  by (simp add: action_pairs_def) (elim disjE; simp)

lemma classify_pair_symmetric:
  assumes "(v, w) \<in> set action_pairs"
  shows "classifyAction (Num v) (Num w) d = classifyAction (Num w) (Num v) (- d)"
  using assms
  apply (simp add: action_pairs_def)
  apply (elim disjE conjE)
  apply (simp_all add: classifyAction_def basic_arr_def mid_arr_def action_triples_def)
  done

lemma classify_symmetric: "classifyAction a b d = classifyAction b a (- d)"
proof (cases "classifyAction a b d = Invalid \<and> classifyAction b a (- d) = Invalid")
  case True
  then show ?thesis by simp
next
  case False
  then consider "classifyAction a b d \<noteq> Invalid" | "classifyAction b a (- d) \<noteq> Invalid" by blast
  then show ?thesis
  proof cases
    case 1
    from classify_pairs[OF 1] obtain v w where "a = Num v" "b = Num w" "(v, w) \<in> set action_pairs"
      by blast
    then show ?thesis using classify_pair_symmetric by simp
  next
    case 2
    from classify_pairs[OF 2] obtain v w where "b = Num v" "a = Num w" "(v, w) \<in> set action_pairs"
      by blast
    then show ?thesis using classify_pair_symmetric[of w v d] action_pairs_sym by simp
  qed
qed

lemma tier_pair: "(v, w) \<in> set action_pairs \<Longrightarrow> tier_score (Num v) = tier_score (Num w)"
  apply (simp add: action_pairs_def)
  apply (elim disjE conjE)
  apply (simp_all add: tier_score_def basic_arr_def mid_arr_def)
  done


lemma basic_cases:
  assumes "v \<in> set basic_arr" "map_of action_triples v = Some (Basic d i)"
  shows "(v, d, i) \<in> {(1,5,5),(5,-5,1),(8,1,3),(3,-1,8),(2,4,7),(7,-4,2),(10,6,4),(4,-6,10)}"
  using basic_arr_cases[OF assms(1)] assms(2)
  by (elim disjE) (simp_all add: action_triples_def)

lemma basic_classify:
  assumes "v \<in> set basic_arr" "map_of action_triples v = Some (Basic d i)"
  shows "classifyAction (Num v) (Num v) d = Merge \<and>
    classifyAction (Num v) (Num v) (- d) = Merge \<and>
    classifyAction (Num v) (Num i) d = Combine \<and>
    classifyAction (Num v) (Num i) (- d) = Cancel"
  using basic_cases[OF assms]
  apply simp
  apply (elim disjE conjE)
  apply (simp_all add: classifyAction_def basic_arr_def action_triples_def)
  done


lemma cell_range:
  fixes x :: real
  assumes "1 \<le> x" "x \<le> 299"
  shows "0 \<le> \<lfloor>x / 60\<rfloor>" "\<lfloor>x / 60\<rfloor> \<le> 4"
  using assms by (simp_all add: floor_le_iff le_floor_iff)

lemma grid_id_range:
  assumes "0 \<le> i" "i \<le> 4" "0 \<le> j" "j \<le> 4"
  shows "0 \<le> grid_id i j" "grid_id i j \<le> 24"
  using assms by (simp_all add: grid_id_def)

lemma grid_indices_nonneg: "0 \<le> n \<Longrightarrow> grid_indices n = (n div 5, n mod 5)"
  by (simp add: grid_indices_def js_rem_int_def sgn_if minus_mod_eq_mult_div)

lemma grid_id_indices: "0 \<le> n \<Longrightarrow> grid_id (fst (grid_indices n)) (snd (grid_indices n)) = n"
  by (simp add: grid_indices_nonneg grid_id_def)

lemma origin_column: "0 \<le> n \<Longrightarrow> js_rem_int n 5 = snd (grid_indices n)"
  by (simp add: grid_indices_def)


lemma handleAction_Merge:
  fixes x y :: real
  assumes grid: "1 \<le> x" "x \<le> 299" "1 \<le> y" "y \<le> 299"
    and origin: "0 \<le> origin" "origin \<le> 24"
    and idle: "\<lfloor>x / 60\<rfloor> \<notin> set (animating_columns g)"
              "js_rem_int origin 5 \<notin> set (animating_columns g)"
    and dest: "dest = grid_id \<lfloor>y / 60\<rfloor> \<lfloor>x / 60\<rfloor>"
    and edge: "resolveEdgeError (grid_indices origin) (\<lfloor>y / 60\<rfloor>, \<lfloor>x / 60\<rfloor>) (dest - origin)"
    and src: "src = parseInt st" and dst: "dst = parseInt (cells g dest)"
    and act: "classifyAction src dst (dest - origin) = Merge"
  shows "handleAction st origin x y g =
     Inr \<lparr>returned = None,
          game_after = g\<lparr>cells := (cells g)(origin := Str (Num 0), dest := Str (src)),
                          score := js_add_to (score g) 2, arrows_placed := arrows_placed g - 1\<rparr>,
          gravity_calls =
             (if strict_eq src (Num 1) \<and> strict_eq dst (Num 5) \<and> dest - origin = - 5
              then [(\<lfloor>y / 60\<rfloor> - 1, \<lfloor>x / 60\<rfloor>)]
              else if strict_eq src (Num 5) \<and> strict_eq dst (Num 1) \<and> dest - origin = 5
              then [(fst (grid_indices origin) - 1, snd (grid_indices origin))]
              else (if strict_eq (Num 0) (Num 0)
                    then [(fst (grid_indices origin) - 1, snd (grid_indices origin))] else [])
                 @ (if strict_eq (src) (Num 0) then [(\<lfloor>y / 60\<rfloor> - 1, \<lfloor>x / 60\<rfloor>)] else []))\<rparr>"
proof -
  note r = cell_range[OF grid(1,2)] cell_range[OF grid(3,4)]
  have d: "0 \<le> dest" "dest \<le> 24"
    unfolding dest using grid_id_range[OF r(3,4) r(1,2)] by simp_all
  have o: "grid_id (fst (grid_indices origin)) (snd (grid_indices origin)) = origin"
    by (rule grid_id_indices[OF origin(1)])
  have c: "snd (grid_indices origin) \<notin> set (animating_columns g)"
    using idle(2) origin_column[OF origin(1)] by simp
  show ?thesis
    using grid idle edge act d o c origin
    unfolding dest[symmetric] src dst handleAction_def Let_def
    by (simp add: dest[symmetric] getElementById_def updateGridCell_def)
qed

lemma handleAction_Combine:
  fixes x y :: real
  assumes grid: "1 \<le> x" "x \<le> 299" "1 \<le> y" "y \<le> 299"
    and origin: "0 \<le> origin" "origin \<le> 24"
    and idle: "\<lfloor>x / 60\<rfloor> \<notin> set (animating_columns g)"
              "js_rem_int origin 5 \<notin> set (animating_columns g)"
    and dest: "dest = grid_id \<lfloor>y / 60\<rfloor> \<lfloor>x / 60\<rfloor>"
    and edge: "resolveEdgeError (grid_indices origin) (\<lfloor>y / 60\<rfloor>, \<lfloor>x / 60\<rfloor>) (dest - origin)"
    and src: "src = parseInt st" and dst: "dst = parseInt (cells g dest)"
    and act: "classifyAction src dst (dest - origin) = Combine"
  shows "handleAction st origin x y g =
     Inr \<lparr>returned = None,
          game_after = g\<lparr>cells := (cells g)(origin := Str (Num 0), dest := Str (js_rem (js_add src dst) 80)),
                          score := js_add_to (score g) (2 ^ (tier_score src + 1)), arrows_placed := arrows_placed g - 1\<rparr>,
          gravity_calls =
             (if strict_eq src (Num 1) \<and> strict_eq dst (Num 5) \<and> dest - origin = - 5
              then [(\<lfloor>y / 60\<rfloor> - 1, \<lfloor>x / 60\<rfloor>)]
              else if strict_eq src (Num 5) \<and> strict_eq dst (Num 1) \<and> dest - origin = 5
              then [(fst (grid_indices origin) - 1, snd (grid_indices origin))]
              else (if strict_eq (Num 0) (Num 0)
                    then [(fst (grid_indices origin) - 1, snd (grid_indices origin))] else [])
                 @ (if strict_eq (js_rem (js_add src dst) 80) (Num 0) then [(\<lfloor>y / 60\<rfloor> - 1, \<lfloor>x / 60\<rfloor>)] else []))\<rparr>"
proof -
  note r = cell_range[OF grid(1,2)] cell_range[OF grid(3,4)]
  have d: "0 \<le> dest" "dest \<le> 24"
    unfolding dest using grid_id_range[OF r(3,4) r(1,2)] by simp_all
  have o: "grid_id (fst (grid_indices origin)) (snd (grid_indices origin)) = origin"
    by (rule grid_id_indices[OF origin(1)])
  have c: "snd (grid_indices origin) \<notin> set (animating_columns g)"
    using idle(2) origin_column[OF origin(1)] by simp
  show ?thesis
    using grid idle edge act d o c origin
    unfolding dest[symmetric] src dst handleAction_def Let_def
    by (simp add: dest[symmetric] getElementById_def updateGridCell_def)
qed

lemma handleAction_Cancel:
  fixes x y :: real
  assumes grid: "1 \<le> x" "x \<le> 299" "1 \<le> y" "y \<le> 299"
    and origin: "0 \<le> origin" "origin \<le> 24"
    and idle: "\<lfloor>x / 60\<rfloor> \<notin> set (animating_columns g)"
              "js_rem_int origin 5 \<notin> set (animating_columns g)"
    and dest: "dest = grid_id \<lfloor>y / 60\<rfloor> \<lfloor>x / 60\<rfloor>"
    and edge: "resolveEdgeError (grid_indices origin) (\<lfloor>y / 60\<rfloor>, \<lfloor>x / 60\<rfloor>) (dest - origin)"
    and src: "src = parseInt st" and dst: "dst = parseInt (cells g dest)"
    and act: "classifyAction src dst (dest - origin) = Cancel"
  shows "handleAction st origin x y g =
     Inr \<lparr>returned = None,
          game_after = g\<lparr>cells := (cells g)(origin := Str (Num 0), dest := Str (Num 0)),
                          spins_remaining := (if strict_eq (js_add src dst) (Num 80)
                                                  then js_add_to (spins_remaining g) 1
                                                  else spins_remaining g),
                          score := js_add_to (score g) (2 ^ tier_score src + 2),
                          arrows_placed := arrows_placed g - 2\<rparr>,
          gravity_calls =
             (if strict_eq src (Num 1) \<and> strict_eq dst (Num 5) \<and> dest - origin = - 5
              then [(\<lfloor>y / 60\<rfloor> - 1, \<lfloor>x / 60\<rfloor>)]
              else if strict_eq src (Num 5) \<and> strict_eq dst (Num 1) \<and> dest - origin = 5
              then [(fst (grid_indices origin) - 1, snd (grid_indices origin))]
              else (if strict_eq (Num 0) (Num 0)
                    then [(fst (grid_indices origin) - 1, snd (grid_indices origin))] else [])
                 @ (if strict_eq (Num 0) (Num 0) then [(\<lfloor>y / 60\<rfloor> - 1, \<lfloor>x / 60\<rfloor>)] else []))\<rparr>"
proof -
  note r = cell_range[OF grid(1,2)] cell_range[OF grid(3,4)]
  have d: "0 \<le> dest" "dest \<le> 24"
    unfolding dest using grid_id_range[OF r(3,4) r(1,2)] by simp_all
  have o: "grid_id (fst (grid_indices origin)) (snd (grid_indices origin)) = origin"
    by (rule grid_id_indices[OF origin(1)])
  have c: "snd (grid_indices origin) \<notin> set (animating_columns g)"
    using idle(2) origin_column[OF origin(1)] by simp
  show ?thesis
    using grid idle edge act d o c origin
    unfolding dest[symmetric] src dst handleAction_def Let_def
    by (simp add: dest[symmetric] getElementById_def updateGridCell_def)
qed

lemma handleAction_Invalid:
  fixes x y :: real
  assumes grid: "1 \<le> x" "x \<le> 299" "1 \<le> y" "y \<le> 299"
    and origin: "0 \<le> origin" "origin \<le> 24"
    and idle: "\<lfloor>x / 60\<rfloor> \<notin> set (animating_columns g)"
              "js_rem_int origin 5 \<notin> set (animating_columns g)"
    and dest: "dest = grid_id \<lfloor>y / 60\<rfloor> \<lfloor>x / 60\<rfloor>"
    and edge: "resolveEdgeError (grid_indices origin) (\<lfloor>y / 60\<rfloor>, \<lfloor>x / 60\<rfloor>) (dest - origin)"
    and src: "src = parseInt st" and dst: "dst = parseInt (cells g dest)"
    and act: "classifyAction src dst (dest - origin) = Invalid"
  shows "handleAction st origin x y g = Inr \<lparr>returned = Some (- 1), game_after = g, gravity_calls = []\<rparr>"
proof -
  note r = cell_range[OF grid(1,2)] cell_range[OF grid(3,4)]
  have d: "0 \<le> dest" "dest \<le> 24"
    unfolding dest using grid_id_range[OF r(3,4) r(1,2)] by simp_all
  have o: "grid_id (fst (grid_indices origin)) (snd (grid_indices origin)) = origin"
    by (rule grid_id_indices[OF origin(1)])
  have c: "snd (grid_indices origin) \<notin> set (animating_columns g)"
    using idle(2) origin_column[OF origin(1)] by simp
  show ?thesis
    using grid idle edge act d o c origin
    unfolding dest[symmetric] src dst handleAction_def Let_def
    by (simp add: dest[symmetric] getElementById_def updateGridCell_def)
qed


lemma js_rem_int_nonneg: "0 \<le> a \<Longrightarrow> 0 < b \<Longrightarrow> js_rem_int a b = a mod b"
  by (simp add: js_rem_int_def sgn_if)

lemma classify_valid_tier:
  assumes "classifyAction a b d \<noteq> Invalid"
  shows "tier_score a = tier_score b"
proof -
  from classify_pairs[OF assms] obtain v w where "a = Num v" "b = Num w" "(v, w) \<in> set action_pairs"
    by blast
  then show ?thesis using tier_pair by simp
qed

lemma mid_cases:
  assumes "c \<in> set mid_arr" "map_of action_triples c = Some (Mid D k i)"
  shows "(c = 11 \<and> D = [1, 5] \<and> k = 1 \<and> i = 6) \<or> (c = 6 \<and> D = [1, 5] \<and> k = 5 \<and> i = 11)
       \<or> (c = 9 \<and> D = [4, 6] \<and> k = 4 \<and> i = 14) \<or> (c = 14 \<and> D = [4, 6] \<and> k = 6 \<and> i = 9)"
  using mid_arr_cases[OF assms(1)] assms(2)
  by (elim disjE) (simp_all add: action_triples_def)

lemma mid_classify:
  assumes "c \<in> set mid_arr" "map_of action_triples c = Some (Mid D k i)"
  shows "(classifyAction (Num c) (Num c) d = Cancel) = (\<bar>d\<bar> = k)
       \<and> (classifyAction (Num c) (Num i) d = Combine) = (\<bar>d\<bar> \<in> set D)"
  using mid_cases[OF assms]
  apply (elim disjE conjE)
  apply (simp_all add: classifyAction_def basic_arr_def mid_arr_def action_triples_def)
  done

lemma mid_facts:
  assumes "c \<in> set mid_arr" "map_of action_triples c = Some (Mid D k i)"
  shows "0 \<le> c + i \<and> 0 \<notin> set D \<and> tier_score (Num c) = 4"
  using mid_cases[OF assms]
  apply (elim disjE conjE)
  apply (simp_all add: tier_score_def basic_arr_def mid_arr_def)
  done

lemma maximal_classify:
  assumes "\<bar>d\<bar> = 1 \<or> \<bar>d\<bar> = 4 \<or> \<bar>d\<bar> = 5 \<or> \<bar>d\<bar> = 6"
  shows "classifyAction (Num 40) (Num 40) d = Cancel
       \<and> classifyAction (Num 17) (Num 23) d = Combine
       \<and> classifyAction (Num 23) (Num 17) d = Combine"
  using assms
  apply (elim disjE)
  apply (simp_all add: classifyAction_def basic_arr_def mid_arr_def)
  done

lemma resolveEdgeError_5: "\<bar>d\<bar> = 5 \<Longrightarrow> resolveEdgeError s t d"
  by (simp add: resolveEdgeError_def)

lemma vertical_pair_Cancel:
  "classifyAction (Num 1) (Num 5) (- 5) = Cancel" "classifyAction (Num 5) (Num 1) 5 = Cancel"
  by (simp_all add: classifyAction_def basic_arr_def action_triples_def)

lemma row_above:
  assumes "0 \<le> n" "n \<le> 24" "0 \<le> i" "i \<le> 4" "0 \<le> j" "j \<le> 4" "grid_id i j - n = k * 5"
  shows "fst (grid_indices n) = i - k \<and> snd (grid_indices n) = j"
proof -
  have "n = (i - k) * 5 + j" using assms(7) by (simp add: grid_id_def algebra_simps)
  with assms(5,6) have "n div 5 = i - k \<and> n mod 5 = j" by presburger
  then show ?thesis by (simp add: grid_indices_nonneg[OF assms(1)])
qed

lemma action_pairs_arrows:
  "(v, w) \<in> set action_pairs \<Longrightarrow> v \<in> set arrows \<and> w \<in> set arrows"
  apply (simp add: action_pairs_def)
  apply (elim disjE conjE)
  apply (simp_all add: arrows_def)
  done

lemma classify_unrecognized:
  assumes "\<not> array_includes arrows a \<or> \<not> array_includes arrows b"
  shows "classifyAction a b d = Invalid"
proof (rule ccontr)
  assume "classifyAction a b d \<noteq> Invalid"
  from classify_pairs[OF this] obtain v w where "a = Num v" "b = Num w" "(v, w) \<in> set action_pairs"
    by blast
  with action_pairs_arrows[of v w] assms show False by simp
qed

lemma handleAction_rejected:
  fixes x y :: real
  assumes "\<not> (1 \<le> x \<and> x \<le> 299 \<and> 1 \<le> y \<and> y \<le> 299)
         \<or> \<lfloor>x / 60\<rfloor> \<in> set (animating_columns g)
         \<or> js_rem_int origin 5 \<in> set (animating_columns g)
         \<or> \<not> resolveEdgeError (grid_indices origin) (\<lfloor>y / 60\<rfloor>, \<lfloor>x / 60\<rfloor>)
               (grid_id \<lfloor>y / 60\<rfloor> \<lfloor>x / 60\<rfloor> - origin)
         \<or> classifyAction (parseInt st) (parseInt (cells g (grid_id \<lfloor>y / 60\<rfloor> \<lfloor>x / 60\<rfloor>)))
               (grid_id \<lfloor>y / 60\<rfloor> \<lfloor>x / 60\<rfloor> - origin) = Invalid"
  shows "\<exists>r. handleAction st origin x y g = Inr r \<and> game_after r = g \<and> gravity_calls r = []"
proof (cases "1 \<le> x \<and> x \<le> 299 \<and> 1 \<le> y \<and> y \<le> 299")
  case False
  have "handleAction st origin x y g = Inr \<lparr>returned = None, game_after = g, gravity_calls = []\<rparr>"
    unfolding handleAction_def by (rule if_not_P[OF False])
  then show ?thesis by simp
next
  case True
  then have grid: "1 \<le> x" "x \<le> 299" "1 \<le> y" "y \<le> 299" by simp_all
  note r = cell_range[OF grid(1,2)] cell_range[OF grid(3,4)]
  have d: "getElementById g (grid_id \<lfloor>y / 60\<rfloor> \<lfloor>x / 60\<rfloor>) = Some (cells g (grid_id \<lfloor>y / 60\<rfloor> \<lfloor>x / 60\<rfloor>))"
    using grid_id_range[OF r(3,4) r(1,2)] by (simp add: getElementById_def)
  show ?thesis
  proof (cases "\<lfloor>x / 60\<rfloor> \<in> set (animating_columns g) \<or> js_rem_int origin 5 \<in> set (animating_columns g)")
    case True
    with grid show ?thesis by (simp add: handleAction_def Let_def)
  next
    case idle: False
    show ?thesis
    proof (cases "resolveEdgeError (grid_indices origin) (\<lfloor>y / 60\<rfloor>, \<lfloor>x / 60\<rfloor>)
               (grid_id \<lfloor>y / 60\<rfloor> \<lfloor>x / 60\<rfloor> - origin)")
      case False
      with grid idle d show ?thesis by (simp add: handleAction_def Let_def)
    next
      case edge: True
      with assms grid idle
      have "classifyAction (parseInt st) (parseInt (cells g (grid_id \<lfloor>y / 60\<rfloor> \<lfloor>x / 60\<rfloor>)))
               (grid_id \<lfloor>y / 60\<rfloor> \<lfloor>x / 60\<rfloor> - origin) = Invalid"
        by blast
      with grid idle d edge show ?thesis by (simp add: handleAction_def Let_def)
    qed
  qed
qed

lemma resolveEdgeError_neg: "resolveEdgeError s t (- d) = resolveEdgeError s t d"
  by (simp add: resolveEdgeError_def)

lemma classify_pair_neg:
  assumes "(v, w) \<in> set action_pairs" "classifyAction (Num v) (Num w) d \<noteq> Invalid"
  shows "classifyAction (Num v) (Num w) (- d) \<noteq> Invalid"
  using assms
  apply (simp add: action_pairs_def)
  apply (elim disjE conjE)
  apply (simp_all add: classifyAction_def basic_arr_def mid_arr_def action_triples_def split: if_splits)
  done

lemma classify_neg_valid:
  assumes "classifyAction a b d \<noteq> Invalid"
  shows "classifyAction a b (- d) \<noteq> Invalid"
proof -
  from classify_pairs[OF assms] obtain v w where "a = Num v" "b = Num w" "(v, w) \<in> set action_pairs"
    by blast
  with classify_pair_neg[of v w d] assms show ?thesis by simp
qed

lemma classify_neg_iff: "(classifyAction a b (- d) = Invalid) = (classifyAction a b d = Invalid)"
  using classify_neg_valid[of a b d] classify_neg_valid[of a b "- d"] by auto

lemma endGameCheck_inner_iff:
  "endGameCheck_inner g i c ns =
     (\<exists>n\<in>set ns. 0 \<le> n \<and> n < 25 \<and> canCombine i c n (parseInt (cells g n)) (i - n))"
  by (induction ns) auto

lemma endGameCheck_outer_iff:
  "endGameCheck_outer g k =
     (\<exists>i. k \<le> i \<and> i < 25 \<and> endGameCheck_inner g i (parseInt (cells g i)) (getNeighbors i))"
proof (induction g k rule: endGameCheck_outer.induct)
  case (1 g i)
  show ?case
  proof (cases "i < 25")
    case False
    then show ?thesis by (subst endGameCheck_outer.simps) auto
  next
    case True
    show ?thesis
    proof (cases "endGameCheck_inner g i (parseInt (cells g i)) (getNeighbors i)")
      case hit: True
      with True show ?thesis by (subst endGameCheck_outer.simps) auto
    next
      case miss: False
      have "endGameCheck_outer g i = endGameCheck_outer g (i + 1)"
        using True miss by (subst endGameCheck_outer.simps) simp
      also have "\<dots> = (\<exists>j. i + 1 \<le> j \<and> j < 25 \<and> endGameCheck_inner g j (parseInt (cells g j)) (getNeighbors j))"
        using "1.IH"[OF True miss] .
      also have "\<dots> = (\<exists>j. i \<le> j \<and> j < 25 \<and> endGameCheck_inner g j (parseInt (cells g j)) (getNeighbors j))"
      proof
        assume "\<exists>j. i + 1 \<le> j \<and> j < 25 \<and> endGameCheck_inner g j (parseInt (cells g j)) (getNeighbors j)"
        then obtain j where "i + 1 \<le> j" "j < 25" "endGameCheck_inner g j (parseInt (cells g j)) (getNeighbors j)"
          by blast
        then show "\<exists>j. i \<le> j \<and> j < 25 \<and> endGameCheck_inner g j (parseInt (cells g j)) (getNeighbors j)"
          by (intro exI[of _ j]) simp
      next
        assume "\<exists>j. i \<le> j \<and> j < 25 \<and> endGameCheck_inner g j (parseInt (cells g j)) (getNeighbors j)"
        then obtain j where j: "i \<le> j" "j < 25" "endGameCheck_inner g j (parseInt (cells g j)) (getNeighbors j)"
          by blast
        with miss have "j \<noteq> i" by auto
        with j show "\<exists>j. i + 1 \<le> j \<and> j < 25 \<and> endGameCheck_inner g j (parseInt (cells g j)) (getNeighbors j)"
          by (intro exI[of _ j]) simp
      qed
      finally show ?thesis .
    qed
  qed
qed













lemmas move_eval =
  handleAction_def Let_def getElementById_def updateGridCell_def classifyAction_def basic_arr_def
  mid_arr_def action_triples_def tier_score_def resolveEdgeError_def grid_id_def grid_indices_def
  js_rem_int_def initializeGame_counters_def loadNewGame_def


subsection \<open>Claims\<close>

text \<open>
  C1. For every one-directional arrow \<open>v\<close> with table entry \<open>[d, i]\<close> (natural distance
  \<open>d\<close>, inverse \<open>i\<close>): \<open>classifyAction(v, v, d)\<close> and \<open>classifyAction(v, v, -d)\<close> are
  Merge, \<open>classifyAction(v, i, d)\<close> is Combine and \<open>classifyAction(v, i, -d)\<close> is Cancel;
  and when \<open>handleAction\<close> applies the Combine (pointer inside the grid, both columns idle,
  offset accepted by \<open>resolveEdgeError\<close>), its two cell updates leave \<open>(v + i) mod 80\<close> in
  the destination cell and \<open>0\<close> in the source cell.
\<close>

theorem basic_arrow_actions:
  assumes "v \<in> set basic_arr" and "map_of action_triples v = Some (Basic d i)"
  shows "classifyAction (Num v) (Num v) d = Merge
       \<and> classifyAction (Num v) (Num v) (- d) = Merge
       \<and> classifyAction (Num v) (Num i) d = Combine
       \<and> classifyAction (Num v) (Num i) (- d) = Cancel
       \<and> (\<forall>g origin (x::real) (y::real).
            1 \<le> x \<and> x \<le> 299 \<and> 1 \<le> y \<and> y \<le> 299 \<and> 0 \<le> origin \<and> origin \<le> 24
            \<and> \<lfloor>x / 60\<rfloor> \<notin> set (animating_columns g)
            \<and> js_rem_int origin 5 \<notin> set (animating_columns g)
            \<and> grid_id \<lfloor>y / 60\<rfloor> \<lfloor>x / 60\<rfloor> - origin = d
            \<and> resolveEdgeError (grid_indices origin) (\<lfloor>y / 60\<rfloor>, \<lfloor>x / 60\<rfloor>) d
            \<and> cells g (grid_id \<lfloor>y / 60\<rfloor> \<lfloor>x / 60\<rfloor>) = Str (Num i)
            \<longrightarrow> (\<exists>r. handleAction (Str (Num v)) origin x y g = Inr r
                    \<and> cells (game_after r) (grid_id \<lfloor>y / 60\<rfloor> \<lfloor>x / 60\<rfloor>) = Str (Num ((v + i) mod 80))
                    \<and> cells (game_after r) origin = Str (Num 0)))"
proof -
  note c = basic_classify[OF assms]
  have pos: "0 \<le> v + i" "d \<noteq> 0"
    using basic_cases[OF assms] by auto
  have move: "\<exists>r. handleAction (Str (Num v)) origin x y g = Inr r
                    \<and> cells (game_after r) (grid_id \<lfloor>y / 60\<rfloor> \<lfloor>x / 60\<rfloor>) = Str (Num ((v + i) mod 80))
                    \<and> cells (game_after r) origin = Str (Num 0)"
    if h: "1 \<le> x" "x \<le> 299" "1 \<le> y" "y \<le> 299" "0 \<le> origin" "origin \<le> 24"
       "\<lfloor>x / 60\<rfloor> \<notin> set (animating_columns g)" "js_rem_int origin 5 \<notin> set (animating_columns g)"
       "grid_id \<lfloor>y / 60\<rfloor> \<lfloor>x / 60\<rfloor> - origin = d"
       "resolveEdgeError (grid_indices origin) (\<lfloor>y / 60\<rfloor>, \<lfloor>x / 60\<rfloor>) d"
       "cells g (grid_id \<lfloor>y / 60\<rfloor> \<lfloor>x / 60\<rfloor>) = Str (Num i)"
    for g origin and x y :: real
  proof -
    define dest where "dest = grid_id \<lfloor>y / 60\<rfloor> \<lfloor>x / 60\<rfloor>"
    have ne: "dest \<noteq> origin" using h(9) pos(2) by (auto simp: dest_def)
    have "handleAction (Str (Num v)) origin x y g = Inr \<lparr>returned = None,
          game_after = g\<lparr>cells := (cells g)(origin := Str (Num 0), dest := Str (js_rem (js_add (Num v) (Num i)) 80)),
                          score := js_add_to (score g) (2 ^ (tier_score (Num v) + 1)), arrows_placed := arrows_placed g - 1\<rparr>,
          gravity_calls =
             (if strict_eq (Num v) (Num 1) \<and> strict_eq (Num i) (Num 5) \<and> dest - origin = - 5
              then [(\<lfloor>y / 60\<rfloor> - 1, \<lfloor>x / 60\<rfloor>)]
              else if strict_eq (Num v) (Num 5) \<and> strict_eq (Num i) (Num 1) \<and> dest - origin = 5
              then [(fst (grid_indices origin) - 1, snd (grid_indices origin))]
              else (if strict_eq (Num 0) (Num 0)
                    then [(fst (grid_indices origin) - 1, snd (grid_indices origin))] else [])
                 @ (if strict_eq (js_rem (js_add (Num v) (Num i)) 80) (Num 0) then [(\<lfloor>y / 60\<rfloor> - 1, \<lfloor>x / 60\<rfloor>)] else []))\<rparr>"
      by (rule handleAction_Combine[OF h(1-8) dest_def _ _ _ ])
         (use h c in \<open>simp_all add: dest_def\<close>)
    then show ?thesis
      using ne pos(1) by (simp add: dest_def[symmetric] js_rem_int_nonneg)
  qed
  from c move show ?thesis by blast
qed


theorem basic_arrow_actions_witness:
  "classifyAction (Num 1) (Num 1) 5 = Merge
   \<and> classifyAction (Num 1) (Num 1) (- 5) = Merge
   \<and> classifyAction (Num 1) (Num 5) 5 = Combine
   \<and> classifyAction (Num 1) (Num 5) (- 5) = Cancel
   \<and> (\<exists>r. handleAction (Str (Num 1)) 4 270 90
             (loadNewGame\<lparr>cells := (cells loadNewGame)(4 := Str (Num 1), 9 := Str (Num 5))\<rparr>) = Inr r
          \<and> cells (game_after r) 9 = Str (Num 6) \<and> cells (game_after r) 4 = Str (Num 0))"
proof -
  have a: "(1::int) \<in> set basic_arr" by (simp add: basic_arr_def)
  have b: "map_of action_triples 1 = Some (Basic 5 5)" by (simp add: action_triples_def)
  note t = basic_arrow_actions[OF a b]
  from t have m: "\<forall>g origin (x::real) (y::real).
            1 \<le> x \<and> x \<le> 299 \<and> 1 \<le> y \<and> y \<le> 299 \<and> 0 \<le> origin \<and> origin \<le> 24
            \<and> \<lfloor>x / 60\<rfloor> \<notin> set (animating_columns g)
            \<and> js_rem_int origin 5 \<notin> set (animating_columns g)
            \<and> grid_id \<lfloor>y / 60\<rfloor> \<lfloor>x / 60\<rfloor> - origin = 5
            \<and> resolveEdgeError (grid_indices origin) (\<lfloor>y / 60\<rfloor>, \<lfloor>x / 60\<rfloor>) 5
            \<and> cells g (grid_id \<lfloor>y / 60\<rfloor> \<lfloor>x / 60\<rfloor>) = Str (Num 5)
            \<longrightarrow> (\<exists>r. handleAction (Str (Num 1)) origin x y g = Inr r
                    \<and> cells (game_after r) (grid_id \<lfloor>y / 60\<rfloor> \<lfloor>x / 60\<rfloor>) = Str (Num ((1 + 5) mod 80))
                    \<and> cells (game_after r) origin = Str (Num 0))"
    by blast
  have "\<exists>r. handleAction (Str (Num 1)) 4 270 90
             (loadNewGame\<lparr>cells := (cells loadNewGame)(4 := Str (Num 1), 9 := Str (Num 5))\<rparr>) = Inr r
          \<and> cells (game_after r) 9 = Str (Num 6) \<and> cells (game_after r) 4 = Str (Num 0)"
    using m[rule_format, of 270 90 4 "loadNewGame\<lparr>cells := (cells loadNewGame)(4 := Str (Num 1), 9 := Str (Num 5))\<rparr>"]
    by (simp add: loadNewGame_def grid_id_def resolveEdgeError_def js_rem_int_def)
  with t show ?thesis by simp
qed

text \<open>
  C2. On the width-5 grid, for all source and destination coordinates and every signed
  distance \<open>d\<close>: \<open>resolveEdgeError\<close> returns true when \<open>|d| = 5\<close>; when \<open>|d| = 1\<close> it
  returns true iff the rows are equal; when \<open>|d|\<close> is 4 or 6 it returns true iff the rows
  differ by exactly one; for every other distance it returns true. It rejects distance 6
  between cells 4 and 10 and accepts distance 6 between cells 3 and 9.
\<close>

theorem resolveEdgeError_rules:
  "(\<bar>d\<bar> = 5 \<longrightarrow> resolveEdgeError (src_r, src_c) (dest_r, dest_c) d)
   \<and> (\<bar>d\<bar> = 1 \<longrightarrow> resolveEdgeError (src_r, src_c) (dest_r, dest_c) d = (src_r = dest_r))
   \<and> (\<bar>d\<bar> = 4 \<or> \<bar>d\<bar> = 6 \<longrightarrow>
        resolveEdgeError (src_r, src_c) (dest_r, dest_c) d = (\<bar>src_r - dest_r\<bar> = 1))
   \<and> (\<bar>d\<bar> \<noteq> 5 \<and> \<bar>d\<bar> \<noteq> 1 \<and> \<bar>d\<bar> \<noteq> 4 \<and> \<bar>d\<bar> \<noteq> 6 \<longrightarrow>
        resolveEdgeError (src_r, src_c) (dest_r, dest_c) d)
   \<and> \<not> resolveEdgeError (grid_indices 4) (grid_indices 10) 6
   \<and> resolveEdgeError (grid_indices 3) (grid_indices 9) 6"
  by (simp add: resolveEdgeError_def grid_indices_def js_rem_int_def)

theorem resolveEdgeError_rules_witness:
  "resolveEdgeError (0, 4) (1, 4) (- 5)
   \<and> resolveEdgeError (1, 4) (1, 3) (- 1) \<and> \<not> resolveEdgeError (0, 4) (1, 0) 1
   \<and> resolveEdgeError (0, 3) (1, 4) 6 \<and> \<not> resolveEdgeError (0, 4) (2, 0) 6
   \<and> resolveEdgeError (1, 0) (0, 4) (- 4) \<and> \<not> resolveEdgeError (1, 0) (1, 4) 4
   \<and> resolveEdgeError (0, 0) (2, 0) 10"
  using resolveEdgeError_rules[of "- 5" 0 4 1 4]
        resolveEdgeError_rules[of "- 1" 1 4 1 3] resolveEdgeError_rules[of 1 0 4 1 0]
        resolveEdgeError_rules[of 6 0 3 1 4] resolveEdgeError_rules[of 6 0 4 2 0]
        resolveEdgeError_rules[of "- 4" 1 0 0 4] resolveEdgeError_rules[of 4 1 0 1 4]
        resolveEdgeError_rules[of 10 0 0 2 0]
  by simp

text \<open>
  C3. For all arrow values \<open>a\<close>, \<open>b\<close> (any number, \<open>NaN\<close> included) and every signed
  distance \<open>d\<close>, \<open>classifyAction(a, b, d)\<close> and \<open>classifyAction(b, a, -d)\<close> return the same
  outcome; and when that outcome is not \<open>-1\<close>, two calls of \<open>handleAction\<close> that reach the
  classifier with the mirrored arguments compute the same amount from the tier score of
  their source values (2 for Merge, \<open>2^(u+1)\<close> for Combine, \<open>2^u + 2\<close> for Cancel) and
  each applies \<open>score +=\<close> that amount.
\<close>

theorem classify_mirrored:
  "classifyAction a b d = classifyAction b a (- d)
   \<and> (\<forall>st1 origin1 (x1::real) (y1::real) g1 st2 origin2 (x2::real) (y2::real) g2.
         classifyAction a b d \<noteq> Invalid
         \<and> 1 \<le> x1 \<and> x1 \<le> 299 \<and> 1 \<le> y1 \<and> y1 \<le> 299 \<and> 0 \<le> origin1 \<and> origin1 \<le> 24
         \<and> \<lfloor>x1 / 60\<rfloor> \<notin> set (animating_columns g1)
         \<and> js_rem_int origin1 5 \<notin> set (animating_columns g1)
         \<and> resolveEdgeError (grid_indices origin1) (\<lfloor>y1 / 60\<rfloor>, \<lfloor>x1 / 60\<rfloor>) d
         \<and> parseInt st1 = a \<and> parseInt (cells g1 (grid_id \<lfloor>y1 / 60\<rfloor> \<lfloor>x1 / 60\<rfloor>)) = b
         \<and> grid_id \<lfloor>y1 / 60\<rfloor> \<lfloor>x1 / 60\<rfloor> - origin1 = d
         \<and> 1 \<le> x2 \<and> x2 \<le> 299 \<and> 1 \<le> y2 \<and> y2 \<le> 299 \<and> 0 \<le> origin2 \<and> origin2 \<le> 24
         \<and> \<lfloor>x2 / 60\<rfloor> \<notin> set (animating_columns g2)
         \<and> js_rem_int origin2 5 \<notin> set (animating_columns g2)
         \<and> resolveEdgeError (grid_indices origin2) (\<lfloor>y2 / 60\<rfloor>, \<lfloor>x2 / 60\<rfloor>) (- d)
         \<and> parseInt st2 = b \<and> parseInt (cells g2 (grid_id \<lfloor>y2 / 60\<rfloor> \<lfloor>x2 / 60\<rfloor>)) = a
         \<and> grid_id \<lfloor>y2 / 60\<rfloor> \<lfloor>x2 / 60\<rfloor> - origin2 = - d
         \<longrightarrow> (\<exists>r1 r2. handleAction st1 origin1 x1 y1 g1 = Inr r1
                      \<and> handleAction st2 origin2 x2 y2 g2 = Inr r2
                      \<and> score (game_after r1) = js_add_to (score g1)
                            (case classifyAction a b d of Merge \<Rightarrow> 2 | Combine \<Rightarrow> 2 ^ (tier_score a + 1)
                                | Cancel \<Rightarrow> 2 ^ tier_score a + 2 | Invalid \<Rightarrow> 0)
                      \<and> score (game_after r2) = js_add_to (score g2)
                            (case classifyAction b a (- d) of Merge \<Rightarrow> 2 | Combine \<Rightarrow> 2 ^ (tier_score b + 1)
                                | Cancel \<Rightarrow> 2 ^ tier_score b + 2 | Invalid \<Rightarrow> 0)
                      \<and> (case classifyAction a b d of Merge \<Rightarrow> 2 | Combine \<Rightarrow> 2 ^ (tier_score a + 1)
                                | Cancel \<Rightarrow> 2 ^ tier_score a + 2 | Invalid \<Rightarrow> 0)
                        = ((case classifyAction b a (- d) of Merge \<Rightarrow> 2 | Combine \<Rightarrow> 2 ^ (tier_score b + 1)
                                | Cancel \<Rightarrow> 2 ^ tier_score b + 2 | Invalid \<Rightarrow> 0) :: nat)))"
proof -
  have sym: "classifyAction a b d = classifyAction b a (- d)"
    by (rule classify_symmetric)
  have delta: "\<exists>r1 r2. handleAction st1 origin1 x1 y1 g1 = Inr r1
                      \<and> handleAction st2 origin2 x2 y2 g2 = Inr r2
                      \<and> score (game_after r1) = js_add_to (score g1)
                            (case classifyAction a b d of Merge \<Rightarrow> 2 | Combine \<Rightarrow> 2 ^ (tier_score a + 1)
                                | Cancel \<Rightarrow> 2 ^ tier_score a + 2 | Invalid \<Rightarrow> 0)
                      \<and> score (game_after r2) = js_add_to (score g2)
                            (case classifyAction b a (- d) of Merge \<Rightarrow> 2 | Combine \<Rightarrow> 2 ^ (tier_score b + 1)
                                | Cancel \<Rightarrow> 2 ^ tier_score b + 2 | Invalid \<Rightarrow> 0)
                      \<and> (case classifyAction a b d of Merge \<Rightarrow> 2 | Combine \<Rightarrow> 2 ^ (tier_score a + 1)
                                | Cancel \<Rightarrow> 2 ^ tier_score a + 2 | Invalid \<Rightarrow> 0)
                        = ((case classifyAction b a (- d) of Merge \<Rightarrow> 2 | Combine \<Rightarrow> 2 ^ (tier_score b + 1)
                                | Cancel \<Rightarrow> 2 ^ tier_score b + 2 | Invalid \<Rightarrow> 0) :: nat)"
    if valid: "classifyAction a b d \<noteq> Invalid"
      and m1: "1 \<le> x1" "x1 \<le> 299" "1 \<le> y1" "y1 \<le> 299" "0 \<le> origin1" "origin1 \<le> 24"
         "\<lfloor>x1 / 60\<rfloor> \<notin> set (animating_columns g1)"
         "js_rem_int origin1 5 \<notin> set (animating_columns g1)"
      and e1: "resolveEdgeError (grid_indices origin1) (\<lfloor>y1 / 60\<rfloor>, \<lfloor>x1 / 60\<rfloor>) d"
      and c1: "parseInt st1 = a" "parseInt (cells g1 (grid_id \<lfloor>y1 / 60\<rfloor> \<lfloor>x1 / 60\<rfloor>)) = b"
         "grid_id \<lfloor>y1 / 60\<rfloor> \<lfloor>x1 / 60\<rfloor> - origin1 = d"
      and m2: "1 \<le> x2" "x2 \<le> 299" "1 \<le> y2" "y2 \<le> 299" "0 \<le> origin2" "origin2 \<le> 24"
         "\<lfloor>x2 / 60\<rfloor> \<notin> set (animating_columns g2)"
         "js_rem_int origin2 5 \<notin> set (animating_columns g2)"
      and e2: "resolveEdgeError (grid_indices origin2) (\<lfloor>y2 / 60\<rfloor>, \<lfloor>x2 / 60\<rfloor>) (- d)"
      and c2: "parseInt st2 = b" "parseInt (cells g2 (grid_id \<lfloor>y2 / 60\<rfloor> \<lfloor>x2 / 60\<rfloor>)) = a"
         "grid_id \<lfloor>y2 / 60\<rfloor> \<lfloor>x2 / 60\<rfloor> - origin2 = - d"
    for st1 origin1 g1 st2 origin2 g2 and x1 y1 x2 y2 :: real
  proof -
    define dest1 where "dest1 = grid_id \<lfloor>y1 / 60\<rfloor> \<lfloor>x1 / 60\<rfloor>"
    define dest2 where "dest2 = grid_id \<lfloor>y2 / 60\<rfloor> \<lfloor>x2 / 60\<rfloor>"
    have t: "tier_score a = tier_score b" by (rule classify_valid_tier[OF valid])
    have k1: "classifyAction a b (dest1 - origin1) = classifyAction a b d"
      using c1(3) by (simp add: dest1_def)
    have k2: "classifyAction b a (dest2 - origin2) = classifyAction a b d"
      using c2(3) sym by (simp add: dest2_def)
    have e1': "resolveEdgeError (grid_indices origin1) (\<lfloor>y1 / 60\<rfloor>, \<lfloor>x1 / 60\<rfloor>) (dest1 - origin1)"
      using e1 c1(3) by (simp add: dest1_def)
    have e2': "resolveEdgeError (grid_indices origin2) (\<lfloor>y2 / 60\<rfloor>, \<lfloor>x2 / 60\<rfloor>) (dest2 - origin2)"
      using e2 c2(3) by (simp add: dest2_def)
    have s1: "a = parseInt st1" "b = parseInt (cells g1 dest1)" using c1 by (simp_all add: dest1_def)
    have s2: "b = parseInt st2" "a = parseInt (cells g2 dest2)" using c2 by (simp_all add: dest2_def)
    show ?thesis
    proof (cases "classifyAction a b d")
      case Merge
      show ?thesis
        using handleAction_Merge[OF m1 dest1_def e1' s1 k1[unfolded Merge]]
              handleAction_Merge[OF m2 dest2_def e2' s2 k2[unfolded Merge]] Merge sym[symmetric]
        by simp
    next
      case Combine
      show ?thesis
        using handleAction_Combine[OF m1 dest1_def e1' s1 k1[unfolded Combine]]
              handleAction_Combine[OF m2 dest2_def e2' s2 k2[unfolded Combine]] t Combine sym[symmetric]
        by simp
    next
      case Cancel
      show ?thesis
        using handleAction_Cancel[OF m1 dest1_def e1' s1 k1[unfolded Cancel]]
              handleAction_Cancel[OF m2 dest2_def e2' s2 k2[unfolded Cancel]] t Cancel sym[symmetric]
        by simp
    next
      case Invalid
      with valid show ?thesis by simp
    qed
  qed
  from sym delta show ?thesis by blast
qed


theorem classify_mirrored_witness:
  "classifyAction (Num 1) (Num 5) 5 = classifyAction (Num 5) (Num 1) (- 5)
   \<and> (\<exists>r1 r2.
          handleAction (Str (Num 1)) 4 270 90
            (loadNewGame\<lparr>cells := (cells loadNewGame)(4 := Str (Num 1), 9 := Str (Num 5))\<rparr>) = Inr r1
        \<and> handleAction (Str (Num 5)) 9 270 30
            (loadNewGame\<lparr>cells := (cells loadNewGame)(4 := Str (Num 1), 9 := Str (Num 5))\<rparr>) = Inr r2
        \<and> score (game_after r1) = js_add_to (JNumber 0) 8
        \<and> score (game_after r2) = js_add_to (JNumber 0) 8)"
proof -
  define g where "g = loadNewGame\<lparr>cells := (cells loadNewGame)(4 := Str (Num 1), 9 := Str (Num 5))\<rparr>"
  note t = classify_mirrored[of "Num 1" "Num 5" 5]
  have v: "classifyAction (Num 1) (Num 5) 5 = Combine" "classifyAction (Num 5) (Num 1) (- 5) = Combine"
    by (simp_all add: classifyAction_def basic_arr_def action_triples_def)
  have u: "tier_score (Num 1) = 2" "tier_score (Num 5) = 2"
    by (simp_all add: tier_score_def basic_arr_def)
  have "\<exists>r1 r2. handleAction (Str (Num 1)) 4 270 90 g = Inr r1
        \<and> handleAction (Str (Num 5)) 9 270 30 g = Inr r2
        \<and> score (game_after r1) = js_add_to (score g) 8
        \<and> score (game_after r2) = js_add_to (score g) 8"
    using t[THEN conjunct2, rule_format, of 270 90 4 g "Str (Num 1)" 270 30 9 g "Str (Num 5)"] v u
    by (simp add: g_def loadNewGame_def grid_id_def resolveEdgeError_def js_rem_int_def grid_indices_def)
  moreover have "score g = JNumber 0" by (simp add: g_def loadNewGame_def)
  ultimately show ?thesis using t unfolding g_def by simp
qed

text \<open>
  C5. For every two-directional arrow \<open>c\<close> with table entry \<open>[[D, k], i]\<close> (combine
  distances \<open>D\<close>, cancel distance \<open>k\<close>, inverse \<open>i\<close>): \<open>classifyAction(c, c, d)\<close> is Cancel
  exactly when \<open>|d| = k\<close>, and \<open>classifyAction(c, i, d)\<close> is Combine exactly when \<open>|d|\<close> is
  in \<open>D\<close>; when \<open>handleAction\<close> applies that Combine, the destination cell receives
  \<open>(c + i) mod 80\<close>, the source cell \<open>0\<close>, and \<open>score += 2^(u+1)\<close> is applied with
  \<open>u = 4\<close>; every Combine that \<open>handleAction\<close> applies, the one-directional one included,
  applies \<open>score += 2^(u+1)\<close> with \<open>u\<close> the tier score of its source value.
\<close>

theorem compound_arrow_actions:
  assumes "c \<in> set mid_arr" and "map_of action_triples c = Some (Mid D k i)"
  shows "(classifyAction (Num c) (Num c) d = Cancel) = (\<bar>d\<bar> = k)
       \<and> (classifyAction (Num c) (Num i) d = Combine) = (\<bar>d\<bar> \<in> set D)
       \<and> (\<forall>g origin (x::real) (y::real).
            1 \<le> x \<and> x \<le> 299 \<and> 1 \<le> y \<and> y \<le> 299 \<and> 0 \<le> origin \<and> origin \<le> 24
            \<and> \<lfloor>x / 60\<rfloor> \<notin> set (animating_columns g)
            \<and> js_rem_int origin 5 \<notin> set (animating_columns g)
            \<and> grid_id \<lfloor>y / 60\<rfloor> \<lfloor>x / 60\<rfloor> - origin = d \<and> \<bar>d\<bar> \<in> set D
            \<and> resolveEdgeError (grid_indices origin) (\<lfloor>y / 60\<rfloor>, \<lfloor>x / 60\<rfloor>) d
            \<and> cells g (grid_id \<lfloor>y / 60\<rfloor> \<lfloor>x / 60\<rfloor>) = Str (Num i)
            \<longrightarrow> (\<exists>r. handleAction (Str (Num c)) origin x y g = Inr r
                    \<and> cells (game_after r) (grid_id \<lfloor>y / 60\<rfloor> \<lfloor>x / 60\<rfloor>) = Str (Num ((c + i) mod 80))
                    \<and> cells (game_after r) origin = Str (Num 0)
                    \<and> score (game_after r) = js_add_to (score g) (2 ^ (tier_score (Num c) + 1))
                    \<and> tier_score (Num c) = 4))
       \<and> (\<forall>st g origin (x::real) (y::real).
            1 \<le> x \<and> x \<le> 299 \<and> 1 \<le> y \<and> y \<le> 299 \<and> 0 \<le> origin \<and> origin \<le> 24
            \<and> \<lfloor>x / 60\<rfloor> \<notin> set (animating_columns g)
            \<and> js_rem_int origin 5 \<notin> set (animating_columns g)
            \<and> resolveEdgeError (grid_indices origin) (\<lfloor>y / 60\<rfloor>, \<lfloor>x / 60\<rfloor>)
                 (grid_id \<lfloor>y / 60\<rfloor> \<lfloor>x / 60\<rfloor> - origin)
            \<and> classifyAction (parseInt st) (parseInt (cells g (grid_id \<lfloor>y / 60\<rfloor> \<lfloor>x / 60\<rfloor>)))
                 (grid_id \<lfloor>y / 60\<rfloor> \<lfloor>x / 60\<rfloor> - origin) = Combine
            \<longrightarrow> (\<exists>r. handleAction st origin x y g = Inr r
                    \<and> score (game_after r) = js_add_to (score g) (2 ^ (tier_score (parseInt st) + 1))))"
proof -
  note c = mid_classify[OF assms]
  have pos: "0 \<le> c + i" "0 \<notin> set D" "tier_score (Num c) = 4"
    using mid_facts[OF assms] by simp_all
  have move: "\<exists>r. handleAction (Str (Num c)) origin x y g = Inr r
                    \<and> cells (game_after r) (grid_id \<lfloor>y / 60\<rfloor> \<lfloor>x / 60\<rfloor>) = Str (Num ((c + i) mod 80))
                    \<and> cells (game_after r) origin = Str (Num 0)
                    \<and> score (game_after r) = js_add_to (score g) (2 ^ (tier_score (Num c) + 1))
                    \<and> tier_score (Num c) = 4"
    if h: "1 \<le> x" "x \<le> 299" "1 \<le> y" "y \<le> 299" "0 \<le> origin" "origin \<le> 24"
       "\<lfloor>x / 60\<rfloor> \<notin> set (animating_columns g)" "js_rem_int origin 5 \<notin> set (animating_columns g)"
       "grid_id \<lfloor>y / 60\<rfloor> \<lfloor>x / 60\<rfloor> - origin = d" "\<bar>d\<bar> \<in> set D"
       "resolveEdgeError (grid_indices origin) (\<lfloor>y / 60\<rfloor>, \<lfloor>x / 60\<rfloor>) d"
       "cells g (grid_id \<lfloor>y / 60\<rfloor> \<lfloor>x / 60\<rfloor>) = Str (Num i)"
    for g origin and x y :: real
  proof -
    define dest where "dest = grid_id \<lfloor>y / 60\<rfloor> \<lfloor>x / 60\<rfloor>"
    have ne: "dest \<noteq> origin" using h(9,10) pos(2) by (auto simp: dest_def)
    have e: "resolveEdgeError (grid_indices origin) (\<lfloor>y / 60\<rfloor>, \<lfloor>x / 60\<rfloor>) (dest - origin)"
      using h(9,11) by (simp add: dest_def)
    have s: "Num c = parseInt (Str (Num c))" "Num i = parseInt (cells g dest)"
      using h(12) by (simp_all add: dest_def)
    have a: "classifyAction (Num c) (Num i) (dest - origin) = Combine"
      using c[of d] h(9,10) by (simp add: dest_def)
    show ?thesis
      using handleAction_Combine[OF h(1-8) dest_def e s a] ne pos(1,3)
      by (simp add: dest_def[symmetric] js_rem_int_nonneg)
  qed
  have rule: "\<exists>r. handleAction st origin x y g = Inr r
                    \<and> score (game_after r) = js_add_to (score g) (2 ^ (tier_score (parseInt st) + 1))"
    if h: "1 \<le> x" "x \<le> 299" "1 \<le> y" "y \<le> 299" "0 \<le> origin" "origin \<le> 24"
       "\<lfloor>x / 60\<rfloor> \<notin> set (animating_columns g)" "js_rem_int origin 5 \<notin> set (animating_columns g)"
       "resolveEdgeError (grid_indices origin) (\<lfloor>y / 60\<rfloor>, \<lfloor>x / 60\<rfloor>)
                 (grid_id \<lfloor>y / 60\<rfloor> \<lfloor>x / 60\<rfloor> - origin)"
       "classifyAction (parseInt st) (parseInt (cells g (grid_id \<lfloor>y / 60\<rfloor> \<lfloor>x / 60\<rfloor>)))
                 (grid_id \<lfloor>y / 60\<rfloor> \<lfloor>x / 60\<rfloor> - origin) = Combine"
    for st g origin and x y :: real
  proof -
    define dest where "dest = grid_id \<lfloor>y / 60\<rfloor> \<lfloor>x / 60\<rfloor>"
    show ?thesis
      using handleAction_Combine[OF h(1-8) dest_def h(9)[folded dest_def] refl refl h(10)[folded dest_def]]
      by simp
  qed
  show ?thesis
  proof (intro conjI allI impI)
    show "(classifyAction (Num c) (Num c) d = Cancel) = (\<bar>d\<bar> = k)" using c by simp
    show "(classifyAction (Num c) (Num i) d = Combine) = (\<bar>d\<bar> \<in> set D)" using c by simp
  next
    fix g :: game and origin and x y :: real
    assume "1 \<le> x \<and> x \<le> 299 \<and> 1 \<le> y \<and> y \<le> 299 \<and> 0 \<le> origin \<and> origin \<le> 24
            \<and> \<lfloor>x / 60\<rfloor> \<notin> set (animating_columns g)
            \<and> js_rem_int origin 5 \<notin> set (animating_columns g)
            \<and> grid_id \<lfloor>y / 60\<rfloor> \<lfloor>x / 60\<rfloor> - origin = d \<and> \<bar>d\<bar> \<in> set D
            \<and> resolveEdgeError (grid_indices origin) (\<lfloor>y / 60\<rfloor>, \<lfloor>x / 60\<rfloor>) d
            \<and> cells g (grid_id \<lfloor>y / 60\<rfloor> \<lfloor>x / 60\<rfloor>) = Str (Num i)"
    then show "\<exists>r. handleAction (Str (Num c)) origin x y g = Inr r
                    \<and> cells (game_after r) (grid_id \<lfloor>y / 60\<rfloor> \<lfloor>x / 60\<rfloor>) = Str (Num ((c + i) mod 80))
                    \<and> cells (game_after r) origin = Str (Num 0)
                    \<and> score (game_after r) = js_add_to (score g) (2 ^ (tier_score (Num c) + 1))
                    \<and> tier_score (Num c) = 4"
      using move by blast
  next
    fix st and g :: game and origin and x y :: real
    assume "1 \<le> x \<and> x \<le> 299 \<and> 1 \<le> y \<and> y \<le> 299 \<and> 0 \<le> origin \<and> origin \<le> 24
            \<and> \<lfloor>x / 60\<rfloor> \<notin> set (animating_columns g)
            \<and> js_rem_int origin 5 \<notin> set (animating_columns g)
            \<and> resolveEdgeError (grid_indices origin) (\<lfloor>y / 60\<rfloor>, \<lfloor>x / 60\<rfloor>)
                 (grid_id \<lfloor>y / 60\<rfloor> \<lfloor>x / 60\<rfloor> - origin)
            \<and> classifyAction (parseInt st) (parseInt (cells g (grid_id \<lfloor>y / 60\<rfloor> \<lfloor>x / 60\<rfloor>)))
                 (grid_id \<lfloor>y / 60\<rfloor> \<lfloor>x / 60\<rfloor> - origin) = Combine"
    then show "\<exists>r. handleAction st origin x y g = Inr r
                    \<and> score (game_after r) = js_add_to (score g) (2 ^ (tier_score (parseInt st) + 1))"
      using rule by blast
  qed
qed

theorem compound_arrow_actions_witness:
  "(classifyAction (Num 6) (Num 6) (- 5) = Cancel) = (\<bar>- 5 :: int\<bar> = 5)
   \<and> (classifyAction (Num 6) (Num 11) (- 5) = Combine) = (\<bar>- 5 :: int\<bar> \<in> set [1, 5])
   \<and> (\<exists>r. handleAction (Str (Num 6)) 9 270 30
             (loadNewGame\<lparr>cells := (cells loadNewGame)(4 := Str (Num 11), 9 := Str (Num 6))\<rparr>) = Inr r
          \<and> cells (game_after r) 4 = Str (Num 17) \<and> cells (game_after r) 9 = Str (Num 0)
          \<and> score (game_after r) = js_add_to (JNumber 0) 32)
   \<and> (\<exists>r. handleAction (Str (Num 1)) 4 270 90
             (loadNewGame\<lparr>cells := (cells loadNewGame)(4 := Str (Num 1), 9 := Str (Num 5))\<rparr>) = Inr r
          \<and> score (game_after r) = js_add_to (JNumber 0) 8)"
proof -
  define g where "g = loadNewGame\<lparr>cells := (cells loadNewGame)(4 := Str (Num 11), 9 := Str (Num 6))\<rparr>"
  define g1 where "g1 = loadNewGame\<lparr>cells := (cells loadNewGame)(4 := Str (Num 1), 9 := Str (Num 5))\<rparr>"
  have a: "(6::int) \<in> set mid_arr" by (simp add: mid_arr_def)
  have b: "map_of action_triples 6 = Some (Mid [1, 5] 5 11)" by (simp add: action_triples_def)
  note t = compound_arrow_actions[OF a b, of "- 5"]
  have m: "\<exists>r. handleAction (Str (Num 6)) 9 270 30 g = Inr r
          \<and> cells (game_after r) 4 = Str (Num 17) \<and> cells (game_after r) 9 = Str (Num 0)
          \<and> score (game_after r) = js_add_to (JNumber 0) 32"
    using t[THEN conjunct2, THEN conjunct2, THEN conjunct1, rule_format, of 270 30 9 g]
    by (clarsimp simp add: g_def loadNewGame_def grid_id_def resolveEdgeError_def js_rem_int_def grid_indices_def)
  have c: "classifyAction (Num 1) (Num 5) 5 = Combine"
    by (simp add: classifyAction_def basic_arr_def action_triples_def)
  have u: "tier_score (Num 1) = 2" by (simp add: tier_score_def basic_arr_def)
  have n: "\<exists>r. handleAction (Str (Num 1)) 4 270 90 g1 = Inr r
          \<and> score (game_after r) = js_add_to (JNumber 0) 8"
    using t[THEN conjunct2, THEN conjunct2, THEN conjunct2, rule_format, of 270 90 4 g1 "Str (Num 1)"] c u
    by (simp add: g1_def loadNewGame_def grid_id_def resolveEdgeError_def js_rem_int_def grid_indices_def)
  from t m n show ?thesis unfolding g_def g1_def by simp
qed

text \<open>
  C6. When \<open>|d|\<close> is one of 1, 4, 5, 6, \<open>classifyAction(40, 40, d)\<close> is Cancel and
  \<open>classifyAction(17, 23, d)\<close>, \<open>classifyAction(23, 17, d)\<close> are Combine (lemma
  \<open>maximal_classify\<close>). For two cells holding 40 at distance 1, \<open>handleAction\<close> clears both
  and runs \<open>spins_remaining += 1\<close>. Started by \<open>loadNewGame\<close> the counter is the number 3
  and becomes 4. Restored by \<open>initializeGame\<close> from a save without a parsable counter it is
  the string \<open>"3"\<close>, and the same move leaves the string \<open>"31"\<close>: the digit is
  appended, not one swap added.
\<close>

theorem bonus_swap_on_restored_counter:
  "spins_remaining (initializeGame_counters JNaN (JNumber 0) loadNewGame) = JString ''3''
   \<and> classifyAction (Num 40) (Num 40) 1 = Cancel
   \<and> (case handleAction (Str (Num 40)) 0 90 30
             (initializeGame_counters JNaN (JNumber 0)
                (loadNewGame\<lparr>cells := (cells loadNewGame)(0 := Str (Num 40), 1 := Str (Num 40))\<rparr>)) of
         Inl e \<Rightarrow> False
       | Inr r \<Rightarrow> cells (game_after r) 0 = Str (Num 0) \<and> cells (game_after r) 1 = Str (Num 0)
                \<and> spins_remaining (game_after r) = JString ''31'')
   \<and> (case handleAction (Str (Num 40)) 0 90 30
             (loadNewGame\<lparr>cells := (cells loadNewGame)(0 := Str (Num 40), 1 := Str (Num 40))\<rparr>) of
         Inl e \<Rightarrow> False
       | Inr r \<Rightarrow> spins_remaining (game_after r) = JNumber 4)"
  by (simp add: move_eval decimal.simps to_double_def)

text \<open>
  C9. When a vertical pair of one-directional arrows is resolved at distance 5 (source 1 on
  destination 5 at signed distance \<open>-5\<close>, or source 5 on destination 1 at \<open>+5\<close>), both
  cells are cleared, they lie in one column, and \<open>handleAction\<close> calls
  \<open>applyActionGravity\<close> exactly once: on the cell directly above the upper of the two
  cleared cells.
\<close>

theorem vertical_pair_gravity:
  fixes x y :: real
  assumes "1 \<le> x" and "x \<le> 299" and "1 \<le> y" and "y \<le> 299"
    and "0 \<le> origin" and "origin \<le> 24"
    and "\<lfloor>x / 60\<rfloor> \<notin> set (animating_columns g)"
    and "js_rem_int origin 5 \<notin> set (animating_columns g)"
    and "(parseInt st = Num 1 \<and> parseInt (cells g (grid_id \<lfloor>y / 60\<rfloor> \<lfloor>x / 60\<rfloor>)) = Num 5
            \<and> grid_id \<lfloor>y / 60\<rfloor> \<lfloor>x / 60\<rfloor> - origin = - 5)
         \<or> (parseInt st = Num 5 \<and> parseInt (cells g (grid_id \<lfloor>y / 60\<rfloor> \<lfloor>x / 60\<rfloor>)) = Num 1
            \<and> grid_id \<lfloor>y / 60\<rfloor> \<lfloor>x / 60\<rfloor> - origin = 5)"
  shows "\<exists>r. handleAction st origin x y g = Inr r
           \<and> cells (game_after r) origin = Str (Num 0)
           \<and> cells (game_after r) (grid_id \<lfloor>y / 60\<rfloor> \<lfloor>x / 60\<rfloor>) = Str (Num 0)
           \<and> snd (grid_indices origin) = \<lfloor>x / 60\<rfloor>
           \<and> gravity_calls r = [(min (fst (grid_indices origin)) \<lfloor>y / 60\<rfloor> - 1, \<lfloor>x / 60\<rfloor>)]"
proof -
  define dest where "dest = grid_id \<lfloor>y / 60\<rfloor> \<lfloor>x / 60\<rfloor>"
  note r = cell_range[OF assms(1,2)] cell_range[OF assms(3,4)]
  from assms(9) consider
      (up) "parseInt st = Num 1" "parseInt (cells g dest) = Num 5" "dest - origin = - 5"
    | (down) "parseInt st = Num 5" "parseInt (cells g dest) = Num 1" "dest - origin = 5"
    unfolding dest_def by blast
  then show ?thesis
  proof cases
    case up
    have e: "resolveEdgeError (grid_indices origin) (\<lfloor>y / 60\<rfloor>, \<lfloor>x / 60\<rfloor>) (dest - origin)"
      using up(3) by (simp add: resolveEdgeError_5)
    have a: "classifyAction (Num 1) (Num 5) (dest - origin) = Cancel"
      using up(3) vertical_pair_Cancel by simp
    have rc: "fst (grid_indices origin) = \<lfloor>y / 60\<rfloor> - (- 1) \<and> snd (grid_indices origin) = \<lfloor>x / 60\<rfloor>"
      by (rule row_above[OF assms(5,6) r(3,4) r(1,2)]) (use up(3) in \<open>simp add: dest_def\<close>)
    show ?thesis
      using handleAction_Cancel[OF assms(1-8) dest_def e up(1)[symmetric] up(2)[symmetric] a] up(3) rc
      by (simp add: dest_def[symmetric])
  next
    case down
    have e: "resolveEdgeError (grid_indices origin) (\<lfloor>y / 60\<rfloor>, \<lfloor>x / 60\<rfloor>) (dest - origin)"
      using down(3) by (simp add: resolveEdgeError_5)
    have a: "classifyAction (Num 5) (Num 1) (dest - origin) = Cancel"
      using down(3) vertical_pair_Cancel by simp
    have rc: "fst (grid_indices origin) = \<lfloor>y / 60\<rfloor> - 1 \<and> snd (grid_indices origin) = \<lfloor>x / 60\<rfloor>"
      by (rule row_above[OF assms(5,6) r(3,4) r(1,2)]) (use down(3) in \<open>simp add: dest_def\<close>)
    show ?thesis
      using handleAction_Cancel[OF assms(1-8) dest_def e down(1)[symmetric] down(2)[symmetric] a] down(3) rc
      by (simp add: dest_def[symmetric])
  qed
qed

theorem vertical_pair_gravity_witness:
  "(\<exists>r. handleAction (Str (Num 1)) 14 270 90
           (loadNewGame\<lparr>cells := (cells loadNewGame)(14 := Str (Num 1), 9 := Str (Num 5), 4 := Str (Num 8))\<rparr>) = Inr r
        \<and> cells (game_after r) 14 = Str (Num 0) \<and> cells (game_after r) 9 = Str (Num 0)
        \<and> gravity_calls r = [(0, 4)])
   \<and> (\<exists>r. handleAction (Str (Num 5)) 9 270 150
           (loadNewGame\<lparr>cells := (cells loadNewGame)(9 := Str (Num 5), 14 := Str (Num 1), 4 := Str (Num 8))\<rparr>) = Inr r
        \<and> cells (game_after r) 9 = Str (Num 0) \<and> cells (game_after r) 14 = Str (Num 0)
        \<and> gravity_calls r = [(0, 4)])"
proof -
  have a: "\<exists>r. handleAction (Str (Num 1)) 14 270 90
           (loadNewGame\<lparr>cells := (cells loadNewGame)(14 := Str (Num 1), 9 := Str (Num 5), 4 := Str (Num 8))\<rparr>) = Inr r
        \<and> cells (game_after r) 14 = Str (Num 0) \<and> cells (game_after r) 9 = Str (Num 0)
        \<and> gravity_calls r = [(0, 4)]"
    using vertical_pair_gravity[of 270 90 14
        "loadNewGame\<lparr>cells := (cells loadNewGame)(14 := Str (Num 1), 9 := Str (Num 5), 4 := Str (Num 8))\<rparr>"
        "Str (Num 1)"]
    by (simp add: loadNewGame_def grid_id_def js_rem_int_def grid_indices_def)
  have b: "\<exists>r. handleAction (Str (Num 5)) 9 270 150
           (loadNewGame\<lparr>cells := (cells loadNewGame)(9 := Str (Num 5), 14 := Str (Num 1), 4 := Str (Num 8))\<rparr>) = Inr r
        \<and> cells (game_after r) 9 = Str (Num 0) \<and> cells (game_after r) 14 = Str (Num 0)
        \<and> gravity_calls r = [(0, 4)]"
    using vertical_pair_gravity[of 270 150 9
        "loadNewGame\<lparr>cells := (cells loadNewGame)(9 := Str (Num 5), 14 := Str (Num 1), 4 := Str (Num 8))\<rparr>"
        "Str (Num 5)"]
    by (simp add: loadNewGame_def grid_id_def js_rem_int_def grid_indices_def)
  from a b show ?thesis by simp
qed

text \<open>
  C7. Every invalid input to a move is a no-op: when the pointer is outside the grid, or the
  source or destination column is animating, or \<open>resolveEdgeError\<close> rejects the offset, or
  the source or destination value is not one of \<open>arrows\<close>, or \<open>classifyAction\<close> returns
  \<open>-1\<close>, then \<open>handleAction\<close> throws nothing and leaves every cell, the score,
  \<open>spins_remaining\<close> and \<open>arrows_placed\<close> unchanged, and starts no gravity.
\<close>

theorem invalid_move_is_noop:
  fixes x y :: real
  assumes "\<not> (1 \<le> x \<and> x \<le> 299 \<and> 1 \<le> y \<and> y \<le> 299)
         \<or> \<lfloor>x / 60\<rfloor> \<in> set (animating_columns g)
         \<or> js_rem_int origin 5 \<in> set (animating_columns g)
         \<or> \<not> resolveEdgeError (grid_indices origin) (\<lfloor>y / 60\<rfloor>, \<lfloor>x / 60\<rfloor>)
               (grid_id \<lfloor>y / 60\<rfloor> \<lfloor>x / 60\<rfloor> - origin)
         \<or> \<not> array_includes arrows (parseInt st)
         \<or> \<not> array_includes arrows (parseInt (cells g (grid_id \<lfloor>y / 60\<rfloor> \<lfloor>x / 60\<rfloor>)))
         \<or> classifyAction (parseInt st) (parseInt (cells g (grid_id \<lfloor>y / 60\<rfloor> \<lfloor>x / 60\<rfloor>)))
               (grid_id \<lfloor>y / 60\<rfloor> \<lfloor>x / 60\<rfloor> - origin) = Invalid"
  shows "\<exists>r. handleAction st origin x y g = Inr r
           \<and> cells (game_after r) = cells g \<and> score (game_after r) = score g
           \<and> spins_remaining (game_after r) = spins_remaining g
           \<and> arrows_placed (game_after r) = arrows_placed g
           \<and> game_after r = g \<and> gravity_calls r = []"
proof -
  from assms classify_unrecognized
  have "\<not> (1 \<le> x \<and> x \<le> 299 \<and> 1 \<le> y \<and> y \<le> 299)
         \<or> \<lfloor>x / 60\<rfloor> \<in> set (animating_columns g)
         \<or> js_rem_int origin 5 \<in> set (animating_columns g)
         \<or> \<not> resolveEdgeError (grid_indices origin) (\<lfloor>y / 60\<rfloor>, \<lfloor>x / 60\<rfloor>)
               (grid_id \<lfloor>y / 60\<rfloor> \<lfloor>x / 60\<rfloor> - origin)
         \<or> classifyAction (parseInt st) (parseInt (cells g (grid_id \<lfloor>y / 60\<rfloor> \<lfloor>x / 60\<rfloor>)))
               (grid_id \<lfloor>y / 60\<rfloor> \<lfloor>x / 60\<rfloor> - origin) = Invalid"
    by blast
  from handleAction_rejected[OF this] show ?thesis by auto
qed


theorem invalid_move_is_noop_witness:
  "(\<exists>r. handleAction (Str (Num 8)) 4 300 30
           (loadNewGame\<lparr>cells := (cells loadNewGame)(3 := Str (Num 1), 4 := Str (Num 8), 5 := Str (Num 3))\<rparr>) = Inr r
        \<and> game_after r = (loadNewGame\<lparr>cells := (cells loadNewGame)(3 := Str (Num 1), 4 := Str (Num 8), 5 := Str (Num 3))\<rparr>) \<and> gravity_calls r = [])
   \<and> (\<exists>r. handleAction (Str (Num 8)) 4 210 30
           (loadNewGame\<lparr>cells := (cells loadNewGame)(3 := Str (Num 1), 4 := Str (Num 8)), animating_columns := [3]\<rparr>) = Inr r
        \<and> game_after r = (loadNewGame\<lparr>cells := (cells loadNewGame)(3 := Str (Num 1), 4 := Str (Num 8)), animating_columns := [3]\<rparr>) \<and> gravity_calls r = [])
   \<and> (\<exists>r. handleAction (Str (Num 8)) 4 30 90
           (loadNewGame\<lparr>cells := (cells loadNewGame)(3 := Str (Num 1), 4 := Str (Num 8), 5 := Str (Num 3))\<rparr>) = Inr r
        \<and> game_after r = (loadNewGame\<lparr>cells := (cells loadNewGame)(3 := Str (Num 1), 4 := Str (Num 8), 5 := Str (Num 3))\<rparr>) \<and> gravity_calls r = [])
   \<and> (\<exists>r. handleAction (Str (Num 99)) 4 210 30
           (loadNewGame\<lparr>cells := (cells loadNewGame)(3 := Str (Num 1), 4 := Str (Num 8), 5 := Str (Num 3))\<rparr>) = Inr r
        \<and> game_after r = (loadNewGame\<lparr>cells := (cells loadNewGame)(3 := Str (Num 1), 4 := Str (Num 8), 5 := Str (Num 3))\<rparr>) \<and> gravity_calls r = [])
   \<and> (\<exists>r. handleAction (Animatingto) 4 210 30
           (loadNewGame\<lparr>cells := (cells loadNewGame)(3 := Str (Num 1), 4 := Str (Num 8), 5 := Str (Num 3))\<rparr>) = Inr r
        \<and> game_after r = (loadNewGame\<lparr>cells := (cells loadNewGame)(3 := Str (Num 1), 4 := Str (Num 8), 5 := Str (Num 3))\<rparr>) \<and> gravity_calls r = [])
   \<and> (\<exists>r. handleAction (Str (Num 8)) 4 210 30
           (loadNewGame\<lparr>cells := (cells loadNewGame)(3 := Str (Num 1), 4 := Str (Num 8), 5 := Str (Num 3))\<rparr>) = Inr r
        \<and> game_after r = (loadNewGame\<lparr>cells := (cells loadNewGame)(3 := Str (Num 1), 4 := Str (Num 8), 5 := Str (Num 3))\<rparr>) \<and> gravity_calls r = [])"
proof -
  have c0: "(\<exists>r. handleAction (Str (Num 8)) 4 300 30
           (loadNewGame\<lparr>cells := (cells loadNewGame)(3 := Str (Num 1), 4 := Str (Num 8), 5 := Str (Num 3))\<rparr>) = Inr r
        \<and> game_after r = (loadNewGame\<lparr>cells := (cells loadNewGame)(3 := Str (Num 1), 4 := Str (Num 8), 5 := Str (Num 3))\<rparr>) \<and> gravity_calls r = [])"
    using invalid_move_is_noop[of 300 30 "loadNewGame\<lparr>cells := (cells loadNewGame)(3 := Str (Num 1), 4 := Str (Num 8), 5 := Str (Num 3))\<rparr>" 4 "Str (Num 8)"]
    by (simp add: loadNewGame_def grid_id_def resolveEdgeError_def grid_indices_def js_rem_int_def
          arrows_def classifyAction_def basic_arr_def mid_arr_def action_triples_def) blast
  have c1: "(\<exists>r. handleAction (Str (Num 8)) 4 210 30
           (loadNewGame\<lparr>cells := (cells loadNewGame)(3 := Str (Num 1), 4 := Str (Num 8)), animating_columns := [3]\<rparr>) = Inr r
        \<and> game_after r = (loadNewGame\<lparr>cells := (cells loadNewGame)(3 := Str (Num 1), 4 := Str (Num 8)), animating_columns := [3]\<rparr>) \<and> gravity_calls r = [])"
    using invalid_move_is_noop[of 210 30 "loadNewGame\<lparr>cells := (cells loadNewGame)(3 := Str (Num 1), 4 := Str (Num 8)), animating_columns := [3]\<rparr>" 4 "Str (Num 8)"]
    by (simp add: loadNewGame_def grid_id_def resolveEdgeError_def grid_indices_def js_rem_int_def
          arrows_def classifyAction_def basic_arr_def mid_arr_def action_triples_def) blast
  have c2: "(\<exists>r. handleAction (Str (Num 8)) 4 30 90
           (loadNewGame\<lparr>cells := (cells loadNewGame)(3 := Str (Num 1), 4 := Str (Num 8), 5 := Str (Num 3))\<rparr>) = Inr r
        \<and> game_after r = (loadNewGame\<lparr>cells := (cells loadNewGame)(3 := Str (Num 1), 4 := Str (Num 8), 5 := Str (Num 3))\<rparr>) \<and> gravity_calls r = [])"
    using invalid_move_is_noop[of 30 90 "loadNewGame\<lparr>cells := (cells loadNewGame)(3 := Str (Num 1), 4 := Str (Num 8), 5 := Str (Num 3))\<rparr>" 4 "Str (Num 8)"]
    by (simp add: loadNewGame_def grid_id_def resolveEdgeError_def grid_indices_def js_rem_int_def
          arrows_def classifyAction_def basic_arr_def mid_arr_def action_triples_def) blast
  have c3: "(\<exists>r. handleAction (Str (Num 99)) 4 210 30
           (loadNewGame\<lparr>cells := (cells loadNewGame)(3 := Str (Num 1), 4 := Str (Num 8), 5 := Str (Num 3))\<rparr>) = Inr r
        \<and> game_after r = (loadNewGame\<lparr>cells := (cells loadNewGame)(3 := Str (Num 1), 4 := Str (Num 8), 5 := Str (Num 3))\<rparr>) \<and> gravity_calls r = [])"
    using invalid_move_is_noop[of 210 30 "loadNewGame\<lparr>cells := (cells loadNewGame)(3 := Str (Num 1), 4 := Str (Num 8), 5 := Str (Num 3))\<rparr>" 4 "Str (Num 99)"]
    by (simp add: loadNewGame_def grid_id_def resolveEdgeError_def grid_indices_def js_rem_int_def
          arrows_def classifyAction_def basic_arr_def mid_arr_def action_triples_def) blast
  have c4: "(\<exists>r. handleAction (Animatingto) 4 210 30
           (loadNewGame\<lparr>cells := (cells loadNewGame)(3 := Str (Num 1), 4 := Str (Num 8), 5 := Str (Num 3))\<rparr>) = Inr r
        \<and> game_after r = (loadNewGame\<lparr>cells := (cells loadNewGame)(3 := Str (Num 1), 4 := Str (Num 8), 5 := Str (Num 3))\<rparr>) \<and> gravity_calls r = [])"
    using invalid_move_is_noop[of 210 30 "loadNewGame\<lparr>cells := (cells loadNewGame)(3 := Str (Num 1), 4 := Str (Num 8), 5 := Str (Num 3))\<rparr>" 4 "Animatingto"]
    by (simp add: loadNewGame_def grid_id_def resolveEdgeError_def grid_indices_def js_rem_int_def
          arrows_def classifyAction_def basic_arr_def mid_arr_def action_triples_def) blast
  have c5: "(\<exists>r. handleAction (Str (Num 8)) 4 210 30
           (loadNewGame\<lparr>cells := (cells loadNewGame)(3 := Str (Num 1), 4 := Str (Num 8), 5 := Str (Num 3))\<rparr>) = Inr r
        \<and> game_after r = (loadNewGame\<lparr>cells := (cells loadNewGame)(3 := Str (Num 1), 4 := Str (Num 8), 5 := Str (Num 3))\<rparr>) \<and> gravity_calls r = [])"
    using invalid_move_is_noop[of 210 30 "loadNewGame\<lparr>cells := (cells loadNewGame)(3 := Str (Num 1), 4 := Str (Num 8), 5 := Str (Num 3))\<rparr>" 4 "Str (Num 8)"]
    by (simp add: loadNewGame_def grid_id_def resolveEdgeError_def grid_indices_def js_rem_int_def
          arrows_def classifyAction_def basic_arr_def mid_arr_def action_triples_def) blast
  from c0 c1 c2 c3 c4 c5 show ?thesis by blast
qed

text \<open>
  C4. \<open>endGameCheck\<close> returns false (a move exists) if and only if there are a cell
  \<open>i\<close> in 0..24 and an offset \<open>off\<close> in \<open>action_dists\<close> with \<open>i + off\<close> in 0..24 such that
  \<open>resolveEdgeError\<close> accepts the pair at that offset and \<open>classifyAction\<close> of the two
  contents at that offset is not \<open>-1\<close>. (The code passes \<open>i - n = -off\<close>; whether an
  action exists does not depend on the sign.) The scans stop at the first such pair;
  \<open>endGameMenu\<close> is called exactly when no pair is found and true is returned.
\<close>

theorem endGameCheck_move_exists:
  "(returned_value (endGameCheck g) = False) =
     (\<exists>i\<in>{0..24}. \<exists>off\<in>set action_dists.
         0 \<le> i + off \<and> i + off \<le> 24
       \<and> resolveEdgeError (grid_indices i) (grid_indices (i + off)) off
       \<and> classifyAction (parseInt (cells g i)) (parseInt (cells g (i + off))) off \<noteq> Invalid)
   \<and> endGameMenu_called (endGameCheck g) = returned_value (endGameCheck g)"
proof -
  have "endGameCheck_outer g 0 =
     (\<exists>i\<in>{0..24}. \<exists>off\<in>set action_dists.
         0 \<le> i + off \<and> i + off \<le> 24
       \<and> resolveEdgeError (grid_indices i) (grid_indices (i + off)) off
       \<and> classifyAction (parseInt (cells g i)) (parseInt (cells g (i + off))) off \<noteq> Invalid)"
    (is "_ = ?R")
  proof
    assume "endGameCheck_outer g 0"
    then obtain i n where i: "0 \<le> i" "i < 25" and n: "n \<in> set (getNeighbors i)" "0 \<le> n" "n < 25"
      and c: "canCombine i (parseInt (cells g i)) n (parseInt (cells g n)) (i - n)"
      unfolding endGameCheck_outer_iff endGameCheck_inner_iff by blast
    from n(1) obtain off where off: "off \<in> set action_dists" "n = i + off"
      by (auto simp: getNeighbors_def)
    have d: "i - n = - off" using off(2) by simp
    from c have "resolveEdgeError (grid_indices i) (grid_indices (i + off)) off"
      "classifyAction (parseInt (cells g i)) (parseInt (cells g (i + off))) off \<noteq> Invalid"
      unfolding canCombine_def d off(2) by (simp_all add: resolveEdgeError_neg classify_neg_iff)
    with i n off show ?R by (intro bexI[of _ i] bexI[of _ off]) auto
  next
    assume ?R
    then obtain i off where i: "0 \<le> i" "i \<le> 24" and off: "off \<in> set action_dists"
      and n: "0 \<le> i + off" "i + off \<le> 24"
      and e: "resolveEdgeError (grid_indices i) (grid_indices (i + off)) off"
      and c: "classifyAction (parseInt (cells g i)) (parseInt (cells g (i + off))) off \<noteq> Invalid"
      by auto
    have d: "i - (i + off) = - off" by simp
    have "canCombine i (parseInt (cells g i)) (i + off) (parseInt (cells g (i + off))) (i - (i + off))"
      unfolding canCombine_def d using i n e c by (simp add: resolveEdgeError_neg classify_neg_iff)
    moreover have "i + off \<in> set (getNeighbors i)" using off by (simp add: getNeighbors_def)
    ultimately have "endGameCheck_inner g i (parseInt (cells g i)) (getNeighbors i)"
      unfolding endGameCheck_inner_iff using n by (intro bexI[of _ "i + off"]) auto
    with i show "endGameCheck_outer g 0"
      unfolding endGameCheck_outer_iff by (intro exI[of _ i]) simp
  qed
  then show ?thesis by (simp add: endGameCheck_def)
qed


theorem endGameCheck_move_exists_witness:
  "returned_value (endGameCheck (loadNewGame\<lparr>cells := (cells loadNewGame)(4 := Str (Num 1), 9 := Str (Num 5))\<rparr>)) = False
   \<and> endGameMenu_called (endGameCheck (loadNewGame\<lparr>cells := (cells loadNewGame)(4 := Str (Num 1), 9 := Str (Num 5))\<rparr>)) = False
   \<and> returned_value (endGameCheck loadNewGame) = True
   \<and> endGameMenu_called (endGameCheck loadNewGame) = True"
proof -
  define g where "g = loadNewGame\<lparr>cells := (cells loadNewGame)(4 := Str (Num 1), 9 := Str (Num 5))\<rparr>"
  have "\<exists>i\<in>{0..24}. \<exists>off\<in>set action_dists.
         0 \<le> i + off \<and> i + off \<le> 24
       \<and> resolveEdgeError (grid_indices i) (grid_indices (i + off)) off
       \<and> classifyAction (parseInt (cells g i)) (parseInt (cells g (i + off))) off \<noteq> Invalid"
    by (intro bexI[of _ 4] bexI[of _ 5])
       (simp_all add: g_def loadNewGame_def action_dists_def resolveEdgeError_def
          classifyAction_def basic_arr_def action_triples_def)
  with endGameCheck_move_exists[of g]
  have a: "returned_value (endGameCheck g) = False \<and> endGameMenu_called (endGameCheck g) = False"
    by simp
  have "\<not> (\<exists>i\<in>{0..24}. \<exists>off\<in>set action_dists.
         0 \<le> i + off \<and> i + off \<le> 24
       \<and> resolveEdgeError (grid_indices i) (grid_indices (i + off)) off
       \<and> classifyAction (parseInt (cells loadNewGame i)) (parseInt (cells loadNewGame (i + off))) off \<noteq> Invalid)"
    by (simp add: loadNewGame_def classifyAction_def basic_arr_def mid_arr_def)
  with endGameCheck_move_exists[of loadNewGame]
  have b: "returned_value (endGameCheck loadNewGame) = True \<and> endGameMenu_called (endGameCheck loadNewGame) = True"
    by simp
  from a b show ?thesis unfolding g_def by simp
qed





end
